theory Spec2Isabelle
  imports Main "HOL-Library.Multiset"
begin

section \<open>The schema of the migration\<close>

text \<open>
  The backend of the chat client is the SQL migration
  \<^verbatim>\<open>supabase/migrations/20250916173834_scarlet_mud.sql\<close>: five tables, their
  constraints, the row-level-security policies and the signup trigger. A database state
  is a record with one list of rows per table, in insertion order. A column that the
  schema leaves nullable is an \<open>option\<close>; a \<^verbatim>\<open>NOT NULL\<close> column is a plain value, so a
  \<^verbatim>\<open>NOT NULL\<close> violation cannot be written down (the TypeScript callers pass
  \<^verbatim>\<open>string\<close>s there). A \<^verbatim>\<open>uuid\<close> is kept as its text, a \<^verbatim>\<open>timestamptz\<close> as a number of
  milliseconds. Values that the database generates while it serves a statement
  (\<^verbatim>\<open>gen_random_uuid()\<close>, \<^verbatim>\<open>now()\<close>) are arguments of the operation.
\<close>

type_synonym uuid = string
type_synonym timestamptz = nat

text \<open>\<^verbatim>\<open>auth.users\<close> belongs to the platform; the migration reads \<^verbatim>\<open>id\<close>, \<^verbatim>\<open>email\<close> and
  \<^verbatim>\<open>raw_user_meta_data\<close> of it. The JSON object is kept as its list of text members, so
  that \<^verbatim>\<open>->>\<close> is \<open>map_of\<close>; a missing object, a missing key and a member that is
  JSON \<^verbatim>\<open>null\<close> all give NULL and are all a key without an entry.\<close>

record auth_user =
  au_id :: uuid
  au_email :: "string option"
  au_raw_user_meta_data :: "(string \<times> string) list"

record profile =
  pr_id :: uuid
  pr_username :: "string option"
  pr_avatar_url :: "string option"
  pr_email :: "string option"
  pr_last_seen :: "timestamptz option"
  pr_is_online :: "bool option"
  pr_created_at :: "timestamptz option"
  pr_updated_at :: "timestamptz option"

record chat_room =
  cr_id :: uuid
  cr_name :: string
  cr_description :: "string option"
  cr_created_by :: "uuid option"
  cr_is_private :: "bool option"
  cr_created_at :: "timestamptz option"
  cr_updated_at :: "timestamptz option"

record message =
  msg_id :: uuid
  msg_content :: string
  msg_user_id :: uuid
  msg_room_id :: uuid
  msg_reply_to :: "uuid option"
  msg_edited_at :: "timestamptz option"
  msg_created_at :: "timestamptz option"

record room_member =
  rm_id :: uuid
  rm_room_id :: uuid
  rm_user_id :: uuid
  rm_role :: "string option"
  rm_joined_at :: "timestamptz option"

record message_reaction =
  mr_id :: uuid
  mr_message_id :: uuid
  mr_user_id :: uuid
  mr_emoji :: string
  mr_created_at :: "timestamptz option"

record db =
  auth_users :: "auth_user list"
  profiles :: "profile list"
  chat_rooms :: "chat_room list"
  messages :: "message list"
  room_members :: "room_member list"
  message_reactions :: "message_reaction list"

text \<open>What a statement can answer instead of a result. The first group are the errors
  of the database and of the client; \<open>Forbidden\<close> and \<open>NotFound\<close> are used only by the
  operations that are modelled from the specification.\<close>

datatype error =
    NotSignedIn
  | RlsViolation
  | UniqueViolation
  | ForeignKeyViolation
  | CheckViolation
  | InfiniteRecursion
  | InvalidTextRepresentation
  | Forbidden
  | NotFound

subsection \<open>Foreign keys\<close>

definition user_exists :: "db \<Rightarrow> uuid \<Rightarrow> bool" where
  "user_exists s u = (u \<in> au_id ` set (auth_users s))"

definition room_exists :: "db \<Rightarrow> uuid \<Rightarrow> bool" where
  "room_exists s r = (r \<in> cr_id ` set (chat_rooms s))"

definition message_exists :: "db \<Rightarrow> uuid \<Rightarrow> bool" where
  "message_exists s m = (m \<in> msg_id ` set (messages s))"

text \<open>A nullable reference is satisfied by NULL.\<close>

definition ref_ok :: "(uuid \<Rightarrow> bool) \<Rightarrow> uuid option \<Rightarrow> bool" where
  "ref_ok present v = (case v of None \<Rightarrow> True | Some k \<Rightarrow> present k)"

section \<open>Row-level security\<close>

text \<open>
  Every table has row-level security enabled, so a statement is allowed only by a policy
  declared for its command; a command with no policy is denied. Each policy is the
  predicate of its \<^verbatim>\<open>USING\<close> or \<^verbatim>\<open>WITH CHECK\<close> clause, applied to the command it is
  declared for. \<open>caller\<close> is \<^verbatim>\<open>auth.uid()\<close>: \<open>None\<close> for the anonymous role, \<open>Some u\<close>
  for the authenticated user \<open>u\<close>. A comparison with NULL is not true, so
  \<^verbatim>\<open>auth.uid() = c\<close> holds only when both sides are present and equal.
\<close>

subsection \<open>Expanding the select policies\<close>

text \<open>
  A statement that reads rows of a table has the table's select policies expanded into
  it before it runs: a select, an insert with \<^verbatim>\<open>ON CONFLICT DO UPDATE\<close>, an update or
  a delete whose \<^verbatim>\<open>WHERE\<close> clause reads columns. A subquery inside a policy reads a
  table in turn, and that table's select policies are expanded into the subquery. When
  the expansion comes to a table whose policies are already being expanded, the
  statement is refused with \<^verbatim>\<open>42P17\<close>, infinite recursion detected in policy, whatever
  the rows are.

  \<open>select_policy_reads\<close> lists, for each table, the tables that the subqueries of its
  select policies read:
  \<^item> \<^verbatim>\<open>profiles\<close>, \<^verbatim>\<open>chat_rooms\<close>: \<^verbatim>\<open>USING (true)\<close>, no subquery;
  \<^item> \<^verbatim>\<open>messages\<close>, "Messages are viewable by room members":
    \<^verbatim>\<open>EXISTS (SELECT 1 FROM room_members ...) OR EXISTS (SELECT 1 FROM chat_rooms ...)\<close>;
  \<^item> \<^verbatim>\<open>room_members\<close>, "Room members are viewable by room members":
    \<^verbatim>\<open>EXISTS (SELECT 1 FROM room_members rm ...)\<close>;
  \<^item> \<^verbatim>\<open>message_reactions\<close>, "Reactions are viewable by room members":
    \<^verbatim>\<open>EXISTS (SELECT 1 FROM messages m JOIN room_members rm ...)\<close> (the policy
    \<^verbatim>\<open>FOR ALL\<close> of the table has no subquery).
\<close>

datatype table = Profiles | ChatRooms | Messages | RoomMembers | MessageReactions

definition all_tables :: "table list" where
  "all_tables = [Profiles, ChatRooms, Messages, RoomMembers, MessageReactions]"

fun select_policy_reads :: "table \<Rightarrow> table list" where
  "select_policy_reads Profiles = []"
| "select_policy_reads ChatRooms = []"
| "select_policy_reads Messages = [RoomMembers, ChatRooms]"
| "select_policy_reads RoomMembers = [RoomMembers]"
| "select_policy_reads MessageReactions = [Messages, RoomMembers]"

text \<open>
  The expansion of the select policies of \<open>t\<close> while those of the tables in \<open>active\<close>
  are being expanded: \<open>False\<close> is the refusal. The first argument bounds the depth; a
  chain of tables without a repetition is no longer than the number of tables, so with
  that many steps the bound is reached only where a table repeats.
\<close>

fun expand_select_policies :: "nat \<Rightarrow> table list \<Rightarrow> table \<Rightarrow> bool" where
  "expand_select_policies 0 active t = False"
| "expand_select_policies (Suc depth) active t =
     (t \<notin> set active \<and>
      list_all (\<lambda>t'. expand_select_policies depth (t # active) t') (select_policy_reads t))"

definition select_policies_ok :: "table \<Rightarrow> bool" where
  "select_policies_ok t = expand_select_policies (length all_tables) [] t"

text \<open>
  The select policy of \<^verbatim>\<open>chat_rooms\<close> reads no table, so its expansion ends at once;
  the statements on \<^verbatim>\<open>chat_rooms\<close> below are written without it. The statements on
  \<^verbatim>\<open>messages\<close>, \<^verbatim>\<open>room_members\<close> and \<^verbatim>\<open>message_reactions\<close> that read rows ask
  \<open>select_policies_ok\<close> first. A plain insert reads no row of its table and is checked
  against its insert policy only.
\<close>

text \<open>\<^verbatim>\<open>"Chat rooms are viewable by everyone" ON chat_rooms FOR SELECT USING (true)\<close>\<close>

definition policy_chat_rooms_select :: "uuid option \<Rightarrow> chat_room \<Rightarrow> bool" where
  "policy_chat_rooms_select caller r = True"

text \<open>\<^verbatim>\<open>"Authenticated users can create rooms" ON chat_rooms FOR INSERT TO authenticated
  WITH CHECK (true)\<close>\<close>

definition policy_chat_rooms_insert :: "uuid option \<Rightarrow> chat_room \<Rightarrow> bool" where
  "policy_chat_rooms_insert caller r = (caller \<noteq> None)"

text \<open>\<^verbatim>\<open>"Room creators can update their rooms" ON chat_rooms FOR UPDATE
  USING (auth.uid() = created_by)\<close>\<close>

definition policy_chat_rooms_update :: "uuid option \<Rightarrow> chat_room \<Rightarrow> bool" where
  "policy_chat_rooms_update caller r =
     (case caller of None \<Rightarrow> False | Some u \<Rightarrow> cr_created_by r = Some u)"

section \<open>Statements on \<^verbatim>\<open>chat_rooms\<close>\<close>

text \<open>\<^verbatim>\<open>INSERT INTO chat_rooms\<close> of one row whose defaults are already filled in: the
  insert policy, the primary key, the reference \<^verbatim>\<open>created_by\<close> to \<^verbatim>\<open>auth.users\<close>.
  No trigger and no other table is involved.\<close>

definition insert_chat_rooms :: "uuid option \<Rightarrow> chat_room \<Rightarrow> db \<Rightarrow> error + db" where
  "insert_chat_rooms caller row s =
     (if \<not> policy_chat_rooms_insert caller row then Inl RlsViolation
      else if room_exists s (cr_id row) then Inl UniqueViolation
      else if \<not> ref_ok (user_exists s) (cr_created_by row) then Inl ForeignKeyViolation
      else Inr (s\<lparr>chat_rooms := chat_rooms s @ [row]\<rparr>))"

text \<open>
  \<^verbatim>\<open>supabase.auth.getUser()\<close> asks the auth server for the user of the client's session:
  \<open>session\<close> is the user id in the session's token, \<open>None\<close> without a session. The
  answer is the user's row of \<^verbatim>\<open>auth.users\<close>; without a session, or when that table has
  no such row, there is no user in the answer.
\<close>

definition getUser :: "uuid option \<Rightarrow> db \<Rightarrow> uuid option" where
  "getUser session s =
     (case session of
        None \<Rightarrow> None
      | Some u \<Rightarrow> if user_exists s u then Some u else None)"

text \<open>
  \<^verbatim>\<open>createRoom\<close> of \<^verbatim>\<open>ChatInterface.tsx\<close>: ask for the signed-in user, give up when there
  is none, insert \<^verbatim>\<open>{ name, description, created_by: currentUser.id }\<close> and read the row
  back (\<^verbatim>\<open>.select().single()\<close>). The columns it leaves out take their defaults:
  \<^verbatim>\<open>id\<close> the generated \<open>new_id\<close>, \<^verbatim>\<open>is_private\<close> false, both timestamps \<open>now\<close>.
  An omitted \<^verbatim>\<open>description\<close> is NULL. The result is the row and the new state.
\<close>

definition createRoom ::
  "uuid option \<Rightarrow> uuid \<Rightarrow> timestamptz \<Rightarrow> string \<Rightarrow> string option \<Rightarrow> db
     \<Rightarrow> error + (chat_room \<times> db)" where
  "createRoom session new_id now name description s =
     (case getUser session s of
        None \<Rightarrow> Inl NotSignedIn
      | Some currentUser \<Rightarrow>
          (let row = \<lparr>cr_id = new_id, cr_name = name, cr_description = description,
                      cr_created_by = Some currentUser, cr_is_private = Some False,
                      cr_created_at = Some now, cr_updated_at = Some now\<rparr>
           in case insert_chat_rooms (Some currentUser) row s of
                Inl e \<Rightarrow> Inl e
              | Inr s' \<Rightarrow> Inr (row, s')))"

text \<open>
  \<^verbatim>\<open>createChatRoom\<close> of \<^verbatim>\<open>lib/supabase.ts\<close>: the same insert with \<^verbatim>\<open>{ name, description }\<close>
  only. The migration gives \<^verbatim>\<open>created_by\<close> no default, so the column is NULL. The
  function throws when \<^verbatim>\<open>getUser\<close> answers with an error or without a user (both
  throws are \<open>NotSignedIn\<close> here) and returns no row (there is no \<^verbatim>\<open>.select()\<close>).
\<close>

definition createChatRoom ::
  "uuid option \<Rightarrow> uuid \<Rightarrow> timestamptz \<Rightarrow> string \<Rightarrow> string option \<Rightarrow> db \<Rightarrow> error + db" where
  "createChatRoom session new_id now roomName desc s =
     (case getUser session s of
        None \<Rightarrow> Inl NotSignedIn
      | Some user \<Rightarrow>
          insert_chat_rooms (Some user)
            \<lparr>cr_id = new_id, cr_name = roomName, cr_description = desc,
             cr_created_by = None, cr_is_private = Some False,
             cr_created_at = Some now, cr_updated_at = Some now\<rparr> s)"

text \<open>
  \<^verbatim>\<open>UPDATE chat_rooms SET ... WHERE ...\<close>. The assignable columns are all but the
  primary key. Rows that the \<^verbatim>\<open>USING\<close> clause of the update policy hides from the
  caller are skipped silently. The policy has no \<^verbatim>\<open>WITH CHECK\<close>, so its \<^verbatim>\<open>USING\<close>
  clause is also checked on every new row, and a failure there is an error. No policy
  is declared for \<^verbatim>\<open>DELETE\<close> on \<^verbatim>\<open>chat_rooms\<close>, so rooms are never deleted.
\<close>

datatype chat_room_assignment =
    SetName string
  | SetDescription "string option"
  | SetCreatedBy "uuid option"
  | SetIsPrivate "bool option"
  | SetCreatedAt "timestamptz option"
  | SetUpdatedAt "timestamptz option"

fun assign_chat_room :: "chat_room_assignment \<Rightarrow> chat_room \<Rightarrow> chat_room" where
  "assign_chat_room (SetName v) r = r\<lparr>cr_name := v\<rparr>"
| "assign_chat_room (SetDescription v) r = r\<lparr>cr_description := v\<rparr>"
| "assign_chat_room (SetCreatedBy v) r = r\<lparr>cr_created_by := v\<rparr>"
| "assign_chat_room (SetIsPrivate v) r = r\<lparr>cr_is_private := v\<rparr>"
| "assign_chat_room (SetCreatedAt v) r = r\<lparr>cr_created_at := v\<rparr>"
| "assign_chat_room (SetUpdatedAt v) r = r\<lparr>cr_updated_at := v\<rparr>"

definition update_chat_rooms ::
  "uuid option \<Rightarrow> (chat_room \<Rightarrow> bool) \<Rightarrow> chat_room_assignment list \<Rightarrow> db \<Rightarrow> error + db" where
  "update_chat_rooms caller wh sets s =
     (let hit = (\<lambda>r. wh r \<and> policy_chat_rooms_update caller r);
          new = (\<lambda>r. if hit r then fold assign_chat_room sets r else r)
      in if \<exists>r \<in> set (chat_rooms s). \<not> policy_chat_rooms_update caller (new r) \<and> hit r
         then Inl RlsViolation
         else if \<exists>r \<in> set (chat_rooms s).
                   \<not> ref_ok (user_exists s) (cr_created_by (new r)) \<and> hit r
         then Inl ForeignKeyViolation
         else Inr (s\<lparr>chat_rooms := map new (chat_rooms s)\<rparr>))"

text \<open>The condition \<^verbatim>\<open>WHERE id = ...\<close>.\<close>

definition room_id_is :: "uuid \<Rightarrow> chat_room \<Rightarrow> bool" where
  "room_id_is i r = (cr_id r = i)"

text \<open>
  The query of \<^verbatim>\<open>fetchRooms\<close>:
  \<^verbatim>\<open>from('chat_rooms').select('*').order('created_at', { ascending: true })\<close>,
  filtered by the select policy. Ascending order puts NULL last. The order of rows with
  equal keys is not fixed by SQL; the model keeps them in table order.
\<close>

definition created_at_le :: "timestamptz option \<Rightarrow> timestamptz option \<Rightarrow> bool" where
  "created_at_le a b =
     (case b of None \<Rightarrow> True | Some y \<Rightarrow> (case a of None \<Rightarrow> False | Some x \<Rightarrow> x \<le> y))"

fun insert_by_created_at :: "chat_room \<Rightarrow> chat_room list \<Rightarrow> chat_room list" where
  "insert_by_created_at x [] = [x]"
| "insert_by_created_at x (y # ys) =
     (if created_at_le (cr_created_at x) (cr_created_at y) then x # y # ys
      else y # insert_by_created_at x ys)"

fun order_by_created_at :: "chat_room list \<Rightarrow> chat_room list" where
  "order_by_created_at [] = []"
| "order_by_created_at (x # xs) = insert_by_created_at x (order_by_created_at xs)"

definition fetchRooms :: "uuid option \<Rightarrow> db \<Rightarrow> chat_room list" where
  "fetchRooms caller s =
     order_by_created_at (filter (policy_chat_rooms_select caller) (chat_rooms s))"

section \<open>Statements on \<^verbatim>\<open>messages\<close>\<close>

text \<open>\<^verbatim>\<open>"Authenticated users can insert messages" ON messages FOR INSERT TO authenticated
  WITH CHECK (auth.uid() = user_id)\<close>\<close>

definition policy_messages_insert :: "uuid option \<Rightarrow> message \<Rightarrow> bool" where
  "policy_messages_insert caller m = (caller = Some (msg_user_id m))"

text \<open>\<^verbatim>\<open>"Messages are viewable by room members" ON messages FOR SELECT USING (EXISTS
  (SELECT 1 FROM room_members WHERE room_members.room_id = messages.room_id
  AND room_members.user_id = auth.uid()) OR EXISTS (SELECT 1 FROM chat_rooms
  WHERE chat_rooms.id = messages.room_id AND chat_rooms.is_private = false))\<close>\<close>

definition policy_messages_select :: "uuid option \<Rightarrow> message \<Rightarrow> db \<Rightarrow> bool" where
  "policy_messages_select caller m s =
     ((\<exists>rm \<in> set (room_members s).
          rm_room_id rm = msg_room_id m \<and> caller = Some (rm_user_id rm))
      \<or> (\<exists>r \<in> set (chat_rooms s). cr_id r = msg_room_id m \<and> cr_is_private r = Some False))"

text \<open>\<^verbatim>\<open>"Users can update their own messages" ON messages FOR UPDATE
  USING (auth.uid() = user_id)\<close>\<close>

definition policy_messages_update :: "uuid option \<Rightarrow> message \<Rightarrow> bool" where
  "policy_messages_update caller m = (caller = Some (msg_user_id m))"

text \<open>\<^verbatim>\<open>INSERT INTO messages\<close> of one row with its defaults filled in: the insert policy,
  the primary key, and the references to \<^verbatim>\<open>auth.users\<close>, \<^verbatim>\<open>chat_rooms\<close> and (when
  \<^verbatim>\<open>reply_to\<close> is set) \<^verbatim>\<open>messages\<close>. \<^verbatim>\<open>room_members\<close> is not read.\<close>

definition insert_messages :: "uuid option \<Rightarrow> message \<Rightarrow> db \<Rightarrow> error + db" where
  "insert_messages caller row s =
     (if \<not> policy_messages_insert caller row then Inl RlsViolation
      else if message_exists s (msg_id row) then Inl UniqueViolation
      else if \<not> user_exists s (msg_user_id row) \<or> \<not> room_exists s (msg_room_id row)
              \<or> \<not> ref_ok (message_exists s) (msg_reply_to row)
      then Inl ForeignKeyViolation
      else Inr (s\<lparr>messages := messages s @ [row]\<rparr>))"

text \<open>\<^verbatim>\<open>UPDATE messages SET ... WHERE ...\<close>, on the columns that hold no key. The
  \<^verbatim>\<open>WHERE\<close> clause reads the rows, so the select policies of \<^verbatim>\<open>messages\<close> are expanded
  first. After that, the rows that the select policy or the \<^verbatim>\<open>USING\<close> clause of the
  update policy hides are skipped, and the \<^verbatim>\<open>USING\<close> clause is checked on the new rows
  (it reads \<^verbatim>\<open>user_id\<close> only, which is not assigned).\<close>

datatype message_assignment =
    SetContent string
  | SetEditedAt "timestamptz option"
  | SetMessageCreatedAt "timestamptz option"

fun assign_message :: "message_assignment \<Rightarrow> message \<Rightarrow> message" where
  "assign_message (SetContent v) m = m\<lparr>msg_content := v\<rparr>"
| "assign_message (SetEditedAt v) m = m\<lparr>msg_edited_at := v\<rparr>"
| "assign_message (SetMessageCreatedAt v) m = m\<lparr>msg_created_at := v\<rparr>"

definition update_messages ::
  "uuid option \<Rightarrow> (message \<Rightarrow> bool) \<Rightarrow> message_assignment list \<Rightarrow> db \<Rightarrow> error + db" where
  "update_messages caller wh sets s =
     (let hit = (\<lambda>m. wh m \<and> policy_messages_select caller m s
                      \<and> policy_messages_update caller m);
          new = (\<lambda>m. if hit m then fold assign_message sets m else m)
      in if \<not> select_policies_ok Messages then Inl InfiniteRecursion
         else if \<exists>m \<in> set (messages s). \<not> policy_messages_update caller (new m) \<and> hit m
         then Inl RlsViolation
         else Inr (s\<lparr>messages := map new (messages s)\<rparr>))"

section \<open>Memberships\<close>

definition memberships_of :: "db \<Rightarrow> uuid \<Rightarrow> uuid \<Rightarrow> room_member list" where
  "memberships_of s room user =
     filter (\<lambda>m. rm_room_id m = room \<and> rm_user_id m = user) (room_members s)"

definition is_member :: "db \<Rightarrow> uuid \<Rightarrow> uuid \<Rightarrow> bool" where
  "is_member s user room = (memberships_of s room user \<noteq> [])"

text \<open>\<^verbatim>\<open>"Users can join public rooms" ON room_members FOR INSERT TO authenticated
  WITH CHECK (auth.uid() = user_id AND EXISTS (SELECT 1 FROM chat_rooms
  WHERE chat_rooms.id = room_id AND chat_rooms.is_private = false))\<close>\<close>

definition policy_room_members_insert :: "uuid option \<Rightarrow> room_member \<Rightarrow> db \<Rightarrow> bool" where
  "policy_room_members_insert caller m s =
     (caller = Some (rm_user_id m) \<and>
      (\<exists>r \<in> set (chat_rooms s). cr_id r = rm_room_id m \<and> cr_is_private r = Some False))"

text \<open>\<^verbatim>\<open>CHECK (role IN ('admin', 'moderator', 'member'))\<close>; a NULL role passes a check.\<close>

definition role_check :: "string option \<Rightarrow> bool" where
  "role_check role =
     (case role of None \<Rightarrow> True
      | Some r \<Rightarrow> r = ''admin'' \<or> r = ''moderator'' \<or> r = ''member'')"

text \<open>\<^verbatim>\<open>INSERT INTO room_members\<close>: the insert policy, the check on \<^verbatim>\<open>role\<close>, the primary
  key, \<^verbatim>\<open>UNIQUE(room_id, user_id)\<close> and the two references.\<close>

definition insert_room_members :: "uuid option \<Rightarrow> room_member \<Rightarrow> db \<Rightarrow> error + db" where
  "insert_room_members caller row s =
     (if \<not> policy_room_members_insert caller row s then Inl RlsViolation
      else if \<not> role_check (rm_role row) then Inl CheckViolation
      else if rm_id row \<in> rm_id ` set (room_members s) then Inl UniqueViolation
      else if memberships_of s (rm_room_id row) (rm_user_id row) \<noteq> [] then Inl UniqueViolation
      else if \<not> room_exists s (rm_room_id row) \<or> \<not> user_exists s (rm_user_id row)
      then Inl ForeignKeyViolation
      else Inr (s\<lparr>room_members := room_members s @ [row]\<rparr>))"

text \<open>
  \<^verbatim>\<open>upsert(row, { onConflict: 'room_id,user_id' })\<close> is
  \<^verbatim>\<open>INSERT ... ON CONFLICT (room_id, user_id) DO UPDATE\<close>. The statement reads the
  row it may conflict with, so the select policies of \<^verbatim>\<open>room_members\<close> are expanded
  first. After that, when a row with the same pair exists the statement takes the
  update path, which needs an update policy; \<^verbatim>\<open>room_members\<close> has none, and on this
  path a denied row is an error, not a skipped row. Otherwise the statement is the plain
  insert.
\<close>

definition upsert_room_members :: "uuid option \<Rightarrow> room_member \<Rightarrow> db \<Rightarrow> error + db" where
  "upsert_room_members caller row s =
     (if \<not> select_policies_ok RoomMembers then Inl InfiniteRecursion
      else if memberships_of s (rm_room_id row) (rm_user_id row) \<noteq> [] then Inl RlsViolation
      else insert_room_members caller row s)"

text \<open>
  One pass through the loop of \<^verbatim>\<open>joinDefaultRooms\<close>: the signed-in user joins one room,
  \<^verbatim>\<open>upsert({ room_id: room.id, user_id: user.id, role: 'member' }, ...)\<close>; \<^verbatim>\<open>id\<close> and
  \<^verbatim>\<open>joined_at\<close> take their defaults.
\<close>

definition joinRoom :: "uuid \<Rightarrow> uuid \<Rightarrow> timestamptz \<Rightarrow> uuid \<Rightarrow> db \<Rightarrow> error + db" where
  "joinRoom user new_id now room s =
     upsert_room_members (Some user)
       \<lparr>rm_id = new_id, rm_room_id = room, rm_user_id = user, rm_role = Some ''member'',
        rm_joined_at = Some now\<rparr> s"

text \<open>The client does not look at the answer of the upsert: after a failed call it goes
  on with the state as it was.\<close>

definition joinRoom_ignoring_error ::
  "uuid \<Rightarrow> uuid \<Rightarrow> timestamptz \<Rightarrow> uuid \<Rightarrow> db \<Rightarrow> db" where
  "joinRoom_ignoring_error user new_id now room s =
     (case joinRoom user new_id now room s of Inl e \<Rightarrow> s | Inr s' \<Rightarrow> s')"

text \<open>
  \<^verbatim>\<open>joinDefaultRooms\<close>: read the ids of the rooms with \<^verbatim>\<open>is_private = false\<close>, then join
  them one after the other. \<open>gen room\<close> is the pair of \<^verbatim>\<open>gen_random_uuid()\<close> and
  \<^verbatim>\<open>now()\<close> that the database draws while it serves the upsert for \<open>room\<close>.
\<close>

definition public_room_ids :: "uuid option \<Rightarrow> db \<Rightarrow> uuid list" where
  "public_room_ids caller s =
     map cr_id (filter (\<lambda>r. policy_chat_rooms_select caller r \<and> cr_is_private r = Some False)
                  (chat_rooms s))"

definition joinDefaultRooms :: "uuid \<Rightarrow> (uuid \<Rightarrow> uuid \<times> timestamptz) \<Rightarrow> db \<Rightarrow> db" where
  "joinDefaultRooms user gen s =
     fold (\<lambda>room. joinRoom_ignoring_error user (fst (gen room)) (snd (gen room)) room)
       (public_room_ids (Some user) s) s"

text \<open>Any number of further calls for the same user and room, each with its own
  generated values; any number of further runs of \<^verbatim>\<open>joinDefaultRooms\<close> is
  \<open>fold (joinDefaultRooms user) gens\<close>.\<close>

fun joinRoom_repeat :: "uuid \<Rightarrow> uuid \<Rightarrow> (uuid \<times> timestamptz) list \<Rightarrow> db \<Rightarrow> db" where
  "joinRoom_repeat user room [] s = s"
| "joinRoom_repeat user room ((new_id, now) # calls) s =
     joinRoom_repeat user room calls (joinRoom_ignoring_error user new_id now room s)"

section \<open>Reactions\<close>

text \<open>\<^verbatim>\<open>"Users can manage their own reactions" ON message_reactions FOR ALL
  USING (auth.uid() = user_id) WITH CHECK (auth.uid() = user_id)\<close>\<close>

definition policy_message_reactions_all :: "uuid option \<Rightarrow> message_reaction \<Rightarrow> bool" where
  "policy_message_reactions_all caller r = (caller = Some (mr_user_id r))"

definition reactions_of :: "db \<Rightarrow> uuid \<Rightarrow> uuid \<Rightarrow> string \<Rightarrow> message_reaction list" where
  "reactions_of s m u e =
     filter (\<lambda>r. mr_message_id r = m \<and> mr_user_id r = u \<and> mr_emoji r = e)
       (message_reactions s)"

text \<open>\<^verbatim>\<open>UNIQUE(message_id, user_id, emoji)\<close> as a property of a state.\<close>

definition reactions_unique :: "db \<Rightarrow> bool" where
  "reactions_unique s =
     distinct (map (\<lambda>r. (mr_message_id r, mr_user_id r, mr_emoji r)) (message_reactions s))"

text \<open>\<^verbatim>\<open>INSERT INTO message_reactions\<close>: the policy, the primary key, the unique triple,
  the two references.\<close>

definition insert_message_reactions ::
  "uuid option \<Rightarrow> message_reaction \<Rightarrow> db \<Rightarrow> error + db" where
  "insert_message_reactions caller row s =
     (if \<not> policy_message_reactions_all caller row then Inl RlsViolation
      else if mr_id row \<in> mr_id ` set (message_reactions s) then Inl UniqueViolation
      else if reactions_of s (mr_message_id row) (mr_user_id row) (mr_emoji row) \<noteq> []
      then Inl UniqueViolation
      else if \<not> message_exists s (mr_message_id row) \<or> \<not> user_exists s (mr_user_id row)
      then Inl ForeignKeyViolation
      else Inr (s\<lparr>message_reactions := message_reactions s @ [row]\<rparr>))"

text \<open>\<^verbatim>\<open>DELETE FROM message_reactions WHERE ...\<close>: the \<^verbatim>\<open>WHERE\<close> clause reads the rows,
  so the select policies of \<^verbatim>\<open>message_reactions\<close> are expanded first. After that the
  rows that match and that the policy shows to the caller are removed, and the others
  stay. (The policy \<^verbatim>\<open>FOR ALL\<close> is also a select policy, so a row it shows is a row
  the caller may read.)\<close>

definition delete_message_reactions ::
  "uuid option \<Rightarrow> (message_reaction \<Rightarrow> bool) \<Rightarrow> db \<Rightarrow> error + db" where
  "delete_message_reactions caller wh s =
     (if \<not> select_policies_ok MessageReactions then Inl InfiniteRecursion
      else Inr (s\<lparr>message_reactions :=
                   filter (\<lambda>r. \<not> (wh r \<and> policy_message_reactions_all caller r))
                     (message_reactions s)\<rparr>))"

text \<open>
  Modelled from the spec: \<^verbatim>\<open>canRead\<close>, \<^verbatim>\<open>react\<close> and \<^verbatim>\<open>unreact\<close> are not among the
  source files. The spec has \<^verbatim>\<open>canRead(identity, room)\<close> true if the room is public or
  the identity has a membership, and \<^verbatim>\<open>react\<close>/\<^verbatim>\<open>unreact\<close> require \<^verbatim>\<open>canRead\<close> on the
  message's room and toggle the unique \<^verbatim>\<open>(message_id, user_id, emoji)\<close> row. The row is
  written and removed with the statements above, under the table's policy and
  constraints.
\<close>

definition canRead :: "db \<Rightarrow> uuid \<Rightarrow> uuid \<Rightarrow> bool" where
  "canRead s identity room =
     ((\<exists>r \<in> set (chat_rooms s). cr_id r = room \<and> cr_is_private r = Some False)
      \<or> is_member s identity room)"

definition react ::
  "uuid \<Rightarrow> uuid \<Rightarrow> timestamptz \<Rightarrow> uuid \<Rightarrow> string \<Rightarrow> db \<Rightarrow> error + db" where
  "react user new_id now message_id emoji s =
     (case find (\<lambda>m. msg_id m = message_id) (messages s) of
        None \<Rightarrow> Inl NotFound
      | Some m \<Rightarrow>
          if \<not> canRead s user (msg_room_id m) then Inl Forbidden
          else insert_message_reactions (Some user)
                 \<lparr>mr_id = new_id, mr_message_id = message_id, mr_user_id = user,
                  mr_emoji = emoji, mr_created_at = Some now\<rparr> s)"

definition unreact :: "uuid \<Rightarrow> uuid \<Rightarrow> string \<Rightarrow> db \<Rightarrow> error + db" where
  "unreact user message_id emoji s =
     (case find (\<lambda>m. msg_id m = message_id) (messages s) of
        None \<Rightarrow> Inl NotFound
      | Some m \<Rightarrow>
          if \<not> canRead s user (msg_room_id m) then Inl Forbidden
          else delete_message_reactions (Some user)
                 (\<lambda>r. mr_message_id r = message_id \<and> mr_user_id r = user
                       \<and> mr_emoji r = emoji) s)"

section \<open>Editing a message\<close>

text \<open>The right to edit is the update policy of \<^verbatim>\<open>messages\<close>, asked for an
  authenticated identity.\<close>

definition canEditMessage :: "uuid \<Rightarrow> message \<Rightarrow> bool" where
  "canEditMessage identity m = policy_messages_update (Some identity) m"

text \<open>
  Modelled from the spec: \<^verbatim>\<open>editMessage\<close> is not among the source files, and the
  migration has no trigger that maintains \<^verbatim>\<open>edited_at\<close>. The spec has
  \<^verbatim>\<open>editMessage(editorId, messageId, newContent)\<close> require \<^verbatim>\<open>canEditMessage\<close> and set
  \<^verbatim>\<open>edited_at\<close>; a message that does not exist is \<^verbatim>\<open>NotFound\<close>, a false predicate is
  \<^verbatim>\<open>Forbidden\<close>. The write itself is the update statement above.
\<close>

definition editMessage ::
  "uuid \<Rightarrow> uuid \<Rightarrow> string \<Rightarrow> timestamptz \<Rightarrow> db \<Rightarrow> error + db" where
  "editMessage editorId messageId newContent now s =
     (case find (\<lambda>m. msg_id m = messageId) (messages s) of
        None \<Rightarrow> Inl NotFound
      | Some m \<Rightarrow>
          if \<not> canEditMessage editorId m then Inl Forbidden
          else update_messages (Some editorId) (\<lambda>m. msg_id m = messageId)
                 [SetContent newContent, SetEditedAt (Some now)] s)"

section \<open>The signup trigger\<close>

text \<open>\<^verbatim>\<open>split_part(string, delimiter, n)\<close> for a delimiter of one character: the \<open>n\<close>-th
  field, counted from 1, and the empty string when there are fewer fields. (Position 0
  is an error in SQL; the trigger asks for field 1.)\<close>

fun split_fields :: "char \<Rightarrow> string \<Rightarrow> string list" where
  "split_fields d [] = [[]]"
| "split_fields d (c # cs) =
     (if c = d then [] # split_fields d cs
      else (case split_fields d cs of [] \<Rightarrow> [[c]] | f # fs \<Rightarrow> (c # f) # fs))"

definition split_part :: "string \<Rightarrow> char \<Rightarrow> nat \<Rightarrow> string" where
  "split_part str d n =
     (if n = 0 \<or> length (split_fields d str) < n then [] else split_fields d str ! (n - 1))"

text \<open>
  \<^verbatim>\<open>encode(bytes, 'base64')\<close>: three bytes give four characters of the alphabet, a last
  group of one or two bytes is padded with \<open>=\<close>, and a line feed follows every 76
  characters that come from full groups, that is every 57 bytes. A byte is a number
  below 256.
\<close>

definition base64_char :: "nat \<Rightarrow> char" where
  "base64_char n =
     ''ABCDEFGHIJKLMNOPQRSTUVWXYZabcdefghijklmnopqrstuvwxyz0123456789+/'' ! n"

fun base64_groups :: "nat list \<Rightarrow> string" where
  "base64_groups (a # b # c # rest) =
     base64_char (a div 4) # base64_char ((a mod 4) * 16 + b div 16)
       # base64_char ((b mod 16) * 4 + c div 64) # base64_char (c mod 64)
       # base64_groups rest"
| "base64_groups [a, b] =
     [base64_char (a div 4), base64_char ((a mod 4) * 16 + b div 16),
      base64_char ((b mod 16) * 4), CHR ''='']"
| "base64_groups [a] =
     [base64_char (a div 4), base64_char ((a mod 4) * 16), CHR ''='', CHR ''='']"
| "base64_groups [] = []"

function encode_base64 :: "nat list \<Rightarrow> string" where
  "encode_base64 bytes =
     (if length bytes < 57 then base64_groups bytes
      else base64_groups (take 57 bytes) @ CHR 0x0A # encode_base64 (drop 57 bytes))"
  by pat_completeness auto
termination
  by (relation "measure length") auto

text \<open>
  The cast \<^verbatim>\<open>new.email::bytea\<close> reads the text in the input syntax of \<^verbatim>\<open>bytea\<close>.
  A text that starts with backslash and \<open>x\<close> is in hex format: pairs of hex digits,
  with blanks allowed before a pair. Any other text is in escape format: a character
  other than the backslash is its own byte, a backslash followed by three octal digits
  (the first at most 3) is the byte of that number, two backslashes are one backslash,
  and any other backslash is an error.
\<close>

definition hex_value :: "char \<Rightarrow> nat option" where
  "hex_value c =
     (let n = (of_char c :: nat) in
      if 48 \<le> n \<and> n \<le> 57 then Some (n - 48)
      else if 97 \<le> n \<and> n \<le> 102 then Some (n - 87)
      else if 65 \<le> n \<and> n \<le> 70 then Some (n - 55)
      else None)"

definition hex_blank :: "char \<Rightarrow> bool" where
  "hex_blank c = (c = CHR '' '' \<or> c = CHR 0x0A \<or> c = CHR 0x09 \<or> c = CHR 0x0D)"

definition prepend_byte :: "nat \<Rightarrow> error + nat list \<Rightarrow> error + nat list" where
  "prepend_byte b r = (case r of Inl e \<Rightarrow> Inl e | Inr bytes \<Rightarrow> Inr (b # bytes))"

fun hex_decode :: "string \<Rightarrow> error + nat list" where
  "hex_decode [] = Inr []"
| "hex_decode [c] = (if hex_blank c then Inr [] else Inl InvalidTextRepresentation)"
| "hex_decode (c # d # rest) =
     (if hex_blank c then hex_decode (d # rest)
      else (case hex_value c of
              None \<Rightarrow> Inl InvalidTextRepresentation
            | Some v1 \<Rightarrow>
                (case hex_value d of
                   None \<Rightarrow> Inl InvalidTextRepresentation
                 | Some v2 \<Rightarrow> prepend_byte (v1 * 16 + v2) (hex_decode rest))))"

definition octal_value :: "nat \<Rightarrow> char \<Rightarrow> nat option" where
  "octal_value hi c =
     (let n = (of_char c :: nat) in if 48 \<le> n \<and> n \<le> 48 + hi then Some (n - 48) else None)"

definition octal_byte :: "char \<Rightarrow> char \<Rightarrow> char \<Rightarrow> nat option" where
  "octal_byte d1 d2 d3 =
     (case (octal_value 3 d1, octal_value 7 d2, octal_value 7 d3) of
        (Some a, Some b, Some c) \<Rightarrow> Some (a * 64 + b * 8 + c)
      | _ \<Rightarrow> None)"

fun bytea_escaped :: "string \<Rightarrow> error + nat list" where
  "bytea_escaped [] = Inr []"
| "bytea_escaped (c # cs) =
     (if c \<noteq> CHR 0x5C then prepend_byte (of_char c) (bytea_escaped cs)
      else (case cs of
              [] \<Rightarrow> Inl InvalidTextRepresentation
            | [d1] \<Rightarrow>
                if d1 = CHR 0x5C then prepend_byte 92 (bytea_escaped [])
                else Inl InvalidTextRepresentation
            | [d1, d2] \<Rightarrow>
                if d1 = CHR 0x5C then prepend_byte 92 (bytea_escaped [d2])
                else Inl InvalidTextRepresentation
            | d1 # d2 # d3 # rest \<Rightarrow>
                (case octal_byte d1 d2 d3 of
                   Some b \<Rightarrow> prepend_byte b (bytea_escaped rest)
                 | None \<Rightarrow>
                     if d1 = CHR 0x5C then prepend_byte 92 (bytea_escaped (d2 # d3 # rest))
                     else Inl InvalidTextRepresentation)))"

definition bytea_of_text :: "string \<Rightarrow> error + nat list" where
  "bytea_of_text t =
     (case t of
        c # d # rest \<Rightarrow>
          if c = CHR 0x5C \<and> d = CHR ''x'' then hex_decode rest else bytea_escaped t
      | _ \<Rightarrow> bytea_escaped t)"

text \<open>
  \<^verbatim>\<open>handle_new_user\<close>: the row that the trigger inserts into \<^verbatim>\<open>profiles\<close>.
  \<^verbatim>\<open>COALESCE\<close> takes its first argument that is not NULL and does not evaluate the
  rest; \<^verbatim>\<open>split_part\<close> of NULL and \<^verbatim>\<open>||\<close> with NULL are NULL. The columns that are not
  listed take their defaults.
\<close>

definition new_user_username :: "auth_user \<Rightarrow> string option" where
  "new_user_username new =
     (case map_of (au_raw_user_meta_data new) ''username'' of
        Some v \<Rightarrow> Some v
      | None \<Rightarrow> map_option (\<lambda>email. split_part email CHR ''@'' 1) (au_email new))"

definition new_user_avatar_url :: "auth_user \<Rightarrow> error + string option" where
  "new_user_avatar_url new =
     (case map_of (au_raw_user_meta_data new) ''avatar_url'' of
        Some v \<Rightarrow> Inr (Some v)
      | None \<Rightarrow>
          (case au_email new of
             None \<Rightarrow> Inr None
           | Some email \<Rightarrow>
               (case bytea_of_text email of
                  Inl e \<Rightarrow> Inl e
                | Inr bytes \<Rightarrow>
                    Inr (Some (''https://api.dicebear.com/7.x/initials/svg?seed=''
                               @ encode_base64 bytes)))))"

text \<open>The insert of the trigger. The function is \<^verbatim>\<open>SECURITY DEFINER\<close>, so the policies
  of \<^verbatim>\<open>profiles\<close> are not asked; the primary key, \<^verbatim>\<open>UNIQUE\<close> on \<^verbatim>\<open>username\<close> (NULLs do
  not collide) and the reference to \<^verbatim>\<open>auth.users\<close> are.\<close>

definition handle_new_user :: "auth_user \<Rightarrow> timestamptz \<Rightarrow> db \<Rightarrow> error + db" where
  "handle_new_user new now s =
     (case new_user_avatar_url new of
        Inl e \<Rightarrow> Inl e
      | Inr avatar \<Rightarrow>
          (let row = \<lparr>pr_id = au_id new, pr_username = new_user_username new,
                      pr_avatar_url = avatar, pr_email = au_email new,
                      pr_last_seen = Some now, pr_is_online = Some False,
                      pr_created_at = Some now, pr_updated_at = Some now\<rparr>
           in if pr_id row \<in> pr_id ` set (profiles s) then Inl UniqueViolation
              else if pr_username row \<noteq> None
                      \<and> pr_username row \<in> pr_username ` set (profiles s)
              then Inl UniqueViolation
              else if \<not> user_exists s (pr_id row) then Inl ForeignKeyViolation
              else Inr (s\<lparr>profiles := profiles s @ [row]\<rparr>)))"

text \<open>
  \<^verbatim>\<open>on_auth_user_created\<close>: \<^verbatim>\<open>AFTER INSERT ON auth.users FOR EACH ROW\<close>. A signup is the
  insert of the user row followed, in the same statement, by the trigger; an error of
  the trigger undoes the insert, so the answer is then the error and the state stays.
\<close>

definition on_auth_user_created :: "auth_user \<Rightarrow> timestamptz \<Rightarrow> db \<Rightarrow> error + db" where
  "on_auth_user_created new now s =
     (if user_exists s (au_id new) then Inl UniqueViolation
      else handle_new_user new now (s\<lparr>auth_users := auth_users s @ [new]\<rparr>))"

definition profiles_of :: "db \<Rightarrow> uuid \<Rightarrow> profile list" where
  "profiles_of s u = filter (\<lambda>p. pr_id p = u) (profiles s)"

section \<open>The room list of the client\<close>

text \<open>
  \<^verbatim>\<open>interface ChatRoom\<close> of \<^verbatim>\<open>ChatInterface.tsx\<close>, and the part of the component's state
  that the room list touches. \<^verbatim>\<open>created_at\<close> is an ISO text in the client; it is kept
  as the instant it denotes.
\<close>

record ChatRoom =
  ui_id :: string
  ui_name :: string
  ui_description :: "string option"
  ui_created_at :: "timestamptz option"

definition to_ChatRoom :: "chat_room \<Rightarrow> ChatRoom" where
  "to_ChatRoom r = \<lparr>ui_id = cr_id r, ui_name = cr_name r, ui_description = cr_description r,
                    ui_created_at = cr_created_at r\<rparr>"

text \<open>
  \<open>timer\<close> is the pending \<^verbatim>\<open>setTimeout\<close> of the second effect: the instant at which it
  is due and the value of \<^verbatim>\<open>rooms.length\<close> in the closure of its callback. Instants are
  milliseconds on the client's clock.
\<close>

record chat_interface =
  rooms :: "ChatRoom list"
  activeRoom :: "ChatRoom option"
  timer :: "(timestamptz \<times> nat) option"

text \<open>The four rooms of the callback. Their \<^verbatim>\<open>created_at\<close> are four readings of
  \<^verbatim>\<open>new Date()\<close> inside one run of the callback; the model takes one reading for
  all.\<close>

definition mockRooms :: "timestamptz \<Rightarrow> ChatRoom list" where
  "mockRooms now =
     [\<lparr>ui_id = ''1'', ui_name = ''general'',
       ui_description = Some ''General discussion for everyone'', ui_created_at = Some now\<rparr>,
      \<lparr>ui_id = ''2'', ui_name = ''random'',
       ui_description = Some ''Random conversations and off-topic chat'',
       ui_created_at = Some now\<rparr>,
      \<lparr>ui_id = ''3'', ui_name = ''tech-talk'',
       ui_description = Some ''Discuss technology, programming, and development'',
       ui_created_at = Some now\<rparr>,
      \<lparr>ui_id = ''4'', ui_name = ''announcements'',
       ui_description = Some ''Important announcements and updates'',
       ui_created_at = Some now\<rparr>]"

text \<open>
  \<^verbatim>\<open>setRooms\<close> followed by the render it causes. The second effect depends on
  \<^verbatim>\<open>[rooms.length]\<close>: when the length has changed, its cleanup clears the pending timer
  and the effect sets a new one, due 3000 ms later, whose callback sees the new length.
\<close>

definition setRooms :: "timestamptz \<Rightarrow> ChatRoom list \<Rightarrow> chat_interface \<Rightarrow> chat_interface" where
  "setRooms now new st =
     st\<lparr>rooms := new,
        timer := (if length new = length (rooms st) then timer st
                  else Some (now + 3000, length new))\<rparr>"

text \<open>The callback of the timer, run at \<open>now\<close> with \<open>seen\<close> for \<^verbatim>\<open>rooms.length\<close>.\<close>

definition timer_callback :: "timestamptz \<Rightarrow> nat \<Rightarrow> chat_interface \<Rightarrow> chat_interface" where
  "timer_callback now seen st =
     (if seen = 0
      then (setRooms now (mockRooms now) st)\<lparr>activeRoom := Some (mockRooms now ! 0)\<rparr>
      else st)"

text \<open>The component after its first render at \<open>t0\<close>: no rooms, no active room, the
  timer set. (\<^verbatim>\<open>fetchRooms\<close> has been started; its answer is an event.) The component
  is taken to stay mounted, so the cleanup of the effect runs only when the effect runs
  again.\<close>

definition mount :: "timestamptz \<Rightarrow> chat_interface" where
  "mount t0 = \<lparr>rooms = [], activeRoom = None, timer = Some (t0 + 3000, 0)\<rparr>"

text \<open>
  What can happen to the room list afterwards: the answer of \<^verbatim>\<open>fetchRooms\<close> (\<open>None\<close>
  for an error or for no data), a room returned to \<^verbatim>\<open>createRoom\<close>, and the selection of
  a room in the sidebar. \<^verbatim>\<open>fetchRooms\<close> is called from the first effect only, so the
  \<^verbatim>\<open>activeRoom\<close> in its closure is the initial \<^verbatim>\<open>null\<close> and \<^verbatim>\<open>!activeRoom\<close> holds.
\<close>

datatype event =
    RoomsFetched "ChatRoom list option"
  | RoomCreated ChatRoom
  | RoomSelected ChatRoom

fun handle :: "timestamptz \<Rightarrow> event \<Rightarrow> chat_interface \<Rightarrow> chat_interface" where
  "handle now (RoomsFetched None) st = st"
| "handle now (RoomsFetched (Some data)) st =
     (if length data > 0 then (setRooms now data st)\<lparr>activeRoom := Some (data ! 0)\<rparr>
      else setRooms now data st)"
| "handle now (RoomCreated room) st =
     (setRooms now (rooms st @ [room]) st)\<lparr>activeRoom := Some room\<rparr>"
| "handle now (RoomSelected room) st = st\<lparr>activeRoom := Some room\<rparr>"

text \<open>The answer of a \<^verbatim>\<open>fetchRooms\<close> that the database serves without an error.\<close>

definition fetchRooms_answer :: "uuid option \<Rightarrow> db \<Rightarrow> event" where
  "fetchRooms_answer caller s = RoomsFetched (Some (map to_ChatRoom (fetchRooms caller s)))"

text \<open>An event in which the backend hands rooms to the client.\<close>

fun returns_rooms :: "event \<Rightarrow> bool" where
  "returns_rooms (RoomsFetched None) = False"
| "returns_rooms (RoomsFetched (Some data)) = (data \<noteq> [])"
| "returns_rooms (RoomCreated room) = True"
| "returns_rooms (RoomSelected room) = False"

text \<open>Let the clock reach \<open>t\<close>: every timer that is due by then fires, at its own
  instant.\<close>

function advance :: "timestamptz \<Rightarrow> chat_interface \<Rightarrow> chat_interface" where
  "advance t st =
     (case timer st of
        None \<Rightarrow> st
      | Some (due, seen) \<Rightarrow>
          if due \<le> t then advance t (timer_callback due seen (st\<lparr>timer := None\<rparr>))
          else st)"
  by pat_completeness auto
termination
  by (relation "measure (\<lambda>(t, st). case timer st of None \<Rightarrow> 0 | Some (due, seen) \<Rightarrow> Suc t - due)")
     (auto simp: timer_callback_def setRooms_def mockRooms_def)

text \<open>A run of the client: events with the instants at which they are handled.\<close>

fun run :: "(timestamptz \<times> event) list \<Rightarrow> chat_interface \<Rightarrow> chat_interface" where
  "run [] st = st"
| "run ((t, e) # es) st = run es (handle t e (advance t st))"

section \<open>Example states\<close>

text \<open>Two users, Alice without a username in her metadata and Bob with one; the public
  room \<open>lobby\<close> and the private room \<open>vault\<close>, both created by Alice; a message of
  Alice in the lobby.\<close>

definition alice :: auth_user where
  "alice = \<lparr>au_id = ''u-alice'', au_email = Some ''alice@example.com'',
            au_raw_user_meta_data = []\<rparr>"

definition bob :: auth_user where
  "bob = \<lparr>au_id = ''u-bob'', au_email = Some ''bob@example.com'',
          au_raw_user_meta_data = [(''username'', ''bobby'')]\<rparr>"

definition db_users :: db where
  "db_users = \<lparr>auth_users = [alice, bob], profiles = [], chat_rooms = [], messages = [],
               room_members = [], message_reactions = []\<rparr>"

definition lobby :: chat_room where
  "lobby = \<lparr>cr_id = ''r-lobby'', cr_name = ''lobby'', cr_description = None,
            cr_created_by = Some ''u-alice'', cr_is_private = Some False,
            cr_created_at = Some 100, cr_updated_at = Some 100\<rparr>"

definition vault :: chat_room where
  "vault = \<lparr>cr_id = ''r-vault'', cr_name = ''vault'', cr_description = None,
            cr_created_by = Some ''u-alice'', cr_is_private = Some True,
            cr_created_at = Some 50, cr_updated_at = Some 50\<rparr>"

definition db_rooms :: db where
  "db_rooms = db_users\<lparr>chat_rooms := [lobby, vault]\<rparr>"

definition hello :: message where
  "hello = \<lparr>msg_id = ''m-hello'', msg_content = ''hello'', msg_user_id = ''u-alice'',
            msg_room_id = ''r-lobby'', msg_reply_to = None, msg_edited_at = None,
            msg_created_at = Some 200\<rparr>"

definition db_chat :: db where
  "db_chat = db_rooms\<lparr>messages := [hello]\<rparr>"

definition bob_in_lobby :: room_member where
  "bob_in_lobby = \<lparr>rm_id = ''rm-1'', rm_room_id = ''r-lobby'', rm_user_id = ''u-bob'',
                   rm_role = Some ''member'', rm_joined_at = Some 400\<rparr>"

definition later_ids :: "uuid \<Rightarrow> uuid \<times> timestamptz" where
  "later_ids room = (''rm-later-'' @ room, 800)"

definition thumbs_up :: message_reaction where
  "thumbs_up = \<lparr>mr_id = ''x-1'', mr_message_id = ''m-hello'', mr_user_id = ''u-bob'',
                mr_emoji = ''+1'', mr_created_at = Some 700\<rparr>"

definition alice_profile :: profile where
  "alice_profile =
     \<lparr>pr_id = ''u-alice'', pr_username = Some ''alice'',
      pr_avatar_url =
        Some ''https://api.dicebear.com/7.x/initials/svg?seed=YWxpY2VAZXhhbXBsZS5jb20='',
      pr_email = Some ''alice@example.com'', pr_last_seen = Some 5,
      pr_is_online = Some False, pr_created_at = Some 5, pr_updated_at = Some 5\<rparr>"

definition hi_bob :: message where
  "hi_bob = \<lparr>msg_id = ''m-hi'', msg_content = ''hi'', msg_user_id = ''u-bob'',
             msg_room_id = ''r-lobby'', msg_reply_to = None, msg_edited_at = None,
             msg_created_at = Some 300\<rparr>"

section \<open>Room creation\<close>

lemma insert_chat_rooms_Inr:
  "insert_chat_rooms caller row s = Inr s' \<Longrightarrow>
     s' = s\<lparr>chat_rooms := chat_rooms s @ [row]\<rparr> \<and> caller \<noteq> None \<and> \<not> room_exists s (cr_id row)"
  by (simp add: insert_chat_rooms_def policy_chat_rooms_insert_def split: if_splits)

lemma getUser_Some: "getUser session s = Some u \<Longrightarrow> session = Some u \<and> user_exists s u"
  by (simp add: getUser_def split: option.splits if_splits)

lemma createRoom_Inr:
  assumes "createRoom session new_id now name description s = Inr (room, s')"
  shows "\<exists>u. session = Some u \<and>
           room = \<lparr>cr_id = new_id, cr_name = name, cr_description = description,
                   cr_created_by = Some u, cr_is_private = Some False,
                   cr_created_at = Some now, cr_updated_at = Some now\<rparr> \<and>
           s' = s\<lparr>chat_rooms := chat_rooms s @ [room]\<rparr> \<and> \<not> room_exists s new_id"
proof (cases "getUser session s")
  case None
  with assms show ?thesis by (simp add: createRoom_def)
next
  case (Some u)
  let ?row = "\<lparr>cr_id = new_id, cr_name = name, cr_description = description,
                cr_created_by = Some u, cr_is_private = Some False,
                cr_created_at = Some now, cr_updated_at = Some now\<rparr>"
  from assms Some have ins: "insert_chat_rooms (Some u) ?row s = Inr s'" and r: "room = ?row"
    by (auto simp: createRoom_def Let_def split: sum.splits)
  from insert_chat_rooms_Inr [OF ins] r getUser_Some [OF Some] show ?thesis by simp
qed

lemma createChatRoom_Inr:
  assumes "createChatRoom session new_id now roomName desc s = Inr s'"
  shows "s' = s\<lparr>chat_rooms := chat_rooms s @
                 [\<lparr>cr_id = new_id, cr_name = roomName, cr_description = desc,
                   cr_created_by = None, cr_is_private = Some False,
                   cr_created_at = Some now, cr_updated_at = Some now\<rparr>]\<rparr>
         \<and> room_members s' = room_members s"
proof (cases "getUser session s")
  case None
  with assms show ?thesis by (simp add: createChatRoom_def)
next
  case (Some u)
  with assms insert_chat_rooms_Inr show ?thesis
    by (fastforce simp: createChatRoom_def)
qed

text \<open>
  C1, as stated, fails: Alice creates the room \<open>lobby\<close> in a database with no
  memberships; \<^verbatim>\<open>createRoom\<close> returns the room, and Alice has no membership in it.
\<close>

theorem createRoom_admin_membership_counterexample:
  "createRoom (Some ''u-alice'') ''r-lobby'' 100 ''lobby'' None db_users
     = Inr (lobby, db_users\<lparr>chat_rooms := [lobby]\<rparr>)
   \<and> memberships_of (db_users\<lparr>chat_rooms := [lobby]\<rparr>) ''r-lobby'' ''u-alice'' = []"
  by (simp add: createRoom_def getUser_def Let_def insert_chat_rooms_def
      policy_chat_rooms_insert_def
      room_exists_def user_exists_def ref_ok_def memberships_of_def db_users_def lobby_def
      alice_def bob_def)

text \<open>
  C1, amended: a call of \<^verbatim>\<open>createRoom\<close> that returns a room has appended exactly that
  row to \<^verbatim>\<open>chat_rooms\<close>, with the creating identity in \<^verbatim>\<open>created_by\<close>, and has left
  every other table, \<^verbatim>\<open>room_members\<close> included, as it was: no membership is created
  with the room.
\<close>

theorem createRoom_inserts_room_only:
  assumes "createRoom (Some u) new_id now name description s = Inr (room, s')"
  shows "s' = s\<lparr>chat_rooms := chat_rooms s @ [room]\<rparr>
         \<and> cr_id room = new_id \<and> cr_created_by room = Some u
         \<and> room_members s' = room_members s
         \<and> memberships_of s' new_id u = memberships_of s new_id u"
proof -
  from createRoom_Inr [OF assms] show ?thesis
    by (auto simp: memberships_of_def)
qed

theorem createRoom_inserts_room_only_witness:
  "createRoom (Some ''u-alice'') ''r-lobby'' 100 ''lobby'' None db_users
     = Inr (lobby, db_users\<lparr>chat_rooms := [lobby]\<rparr>)
   \<and> room_members (db_users\<lparr>chat_rooms := [lobby]\<rparr>) = []
   \<and> cr_created_by lobby = Some ''u-alice''"
proof -
  have run: "createRoom (Some ''u-alice'') ''r-lobby'' 100 ''lobby'' None db_users
     = Inr (lobby, db_users\<lparr>chat_rooms := [lobby]\<rparr>)"
    by (simp add: createRoom_def getUser_def Let_def insert_chat_rooms_def
      policy_chat_rooms_insert_def
        room_exists_def user_exists_def ref_ok_def db_users_def lobby_def alice_def bob_def)
  from createRoom_inserts_room_only [OF run] run show ?thesis
    by (simp add: db_users_def)
qed

text \<open>
  C4, as stated, fails: Alice calls \<^verbatim>\<open>createRoom\<close> with the empty name; the answer is
  a room, and the row with the empty name is in \<^verbatim>\<open>chat_rooms\<close>.
\<close>

theorem createRoom_empty_name_counterexample:
  "createRoom (Some ''u-alice'') ''r-lobby'' 100 [] None db_users
     = Inr (lobby\<lparr>cr_name := []\<rparr>, db_users\<lparr>chat_rooms := [lobby\<lparr>cr_name := []\<rparr>]\<rparr>)"
  by (simp add: createRoom_def getUser_def Let_def insert_chat_rooms_def
      policy_chat_rooms_insert_def
      room_exists_def user_exists_def ref_ok_def lobby_def db_users_def alice_def bob_def)

text \<open>
  C4, amended: \<^verbatim>\<open>createRoom\<close> does not reject the empty name. For a signed-in user
  known to \<^verbatim>\<open>auth.users\<close> and an unused generated id, the call with the empty string
  as name returns a room whose name is the empty string and appends that row to
  \<^verbatim>\<open>chat_rooms\<close>.
\<close>

theorem createRoom_empty_name_accepted:
  assumes "user_exists s u" and "\<not> room_exists s new_id"
  shows "createRoom (Some u) new_id now [] description s
         = Inr (\<lparr>cr_id = new_id, cr_name = [], cr_description = description,
                  cr_created_by = Some u, cr_is_private = Some False,
                  cr_created_at = Some now, cr_updated_at = Some now\<rparr>,
                s\<lparr>chat_rooms := chat_rooms s @
                   [\<lparr>cr_id = new_id, cr_name = [], cr_description = description,
                     cr_created_by = Some u, cr_is_private = Some False,
                     cr_created_at = Some now, cr_updated_at = Some now\<rparr>]\<rparr>)"
  using assms
  by (simp add: createRoom_def getUser_def Let_def insert_chat_rooms_def
      policy_chat_rooms_insert_def
      ref_ok_def)

theorem createRoom_empty_name_accepted_witness:
  "user_exists db_users ''u-bob'' \<and> \<not> room_exists db_users ''r-new''
   \<and> createRoom (Some ''u-bob'') ''r-new'' 7 [] (Some ''no name'') db_users
       = Inr (\<lparr>cr_id = ''r-new'', cr_name = [], cr_description = Some ''no name'',
                cr_created_by = Some ''u-bob'', cr_is_private = Some False,
                cr_created_at = Some 7, cr_updated_at = Some 7\<rparr>,
              db_users\<lparr>chat_rooms := chat_rooms db_users @
                 [\<lparr>cr_id = ''r-new'', cr_name = [], cr_description = Some ''no name'',
                   cr_created_by = Some ''u-bob'', cr_is_private = Some False,
                   cr_created_at = Some 7, cr_updated_at = Some 7\<rparr>]\<rparr>)"
proof -
  have u: "user_exists db_users ''u-bob''" by (simp add: user_exists_def db_users_def alice_def bob_def)
  have r: "\<not> room_exists db_users ''r-new''" by (simp add: room_exists_def db_users_def alice_def bob_def)
  from createRoom_empty_name_accepted [OF u r] u r show ?thesis by simp
qed

section \<open>Listing rooms\<close>

lemma set_insert_by_created_at: "set (insert_by_created_at x xs) = insert x (set xs)"
  by (induction xs) auto

lemma set_order_by_created_at: "set (order_by_created_at xs) = set xs"
  by (induction xs) (auto simp: set_insert_by_created_at)

lemma mset_insert_by_created_at: "mset (insert_by_created_at x xs) = add_mset x (mset xs)"
  by (induction xs) auto

lemma mset_order_by_created_at: "mset (order_by_created_at xs) = mset xs"
  by (induction xs) (auto simp: mset_insert_by_created_at)

lemma created_at_le_total: "created_at_le a b \<or> created_at_le b a"
  by (auto simp: created_at_le_def split: option.splits)

lemma created_at_le_trans: "created_at_le a b \<Longrightarrow> created_at_le b c \<Longrightarrow> created_at_le a c"
  by (auto simp: created_at_le_def split: option.splits)

lemma sorted_insert_by_created_at:
  "sorted_wrt (\<lambda>a b. created_at_le (cr_created_at a) (cr_created_at b)) xs \<Longrightarrow>
   sorted_wrt (\<lambda>a b. created_at_le (cr_created_at a) (cr_created_at b))
     (insert_by_created_at x xs)"
proof (induction xs)
  case Nil
  then show ?case by simp
next
  case (Cons y ys)
  show ?case
  proof (cases "created_at_le (cr_created_at x) (cr_created_at y)")
    case True
    with Cons.prems show ?thesis
      by (auto intro: created_at_le_trans)
  next
    case False
    with created_at_le_total have "created_at_le (cr_created_at y) (cr_created_at x)"
      by blast
    with False Cons show ?thesis
      by (auto simp: set_insert_by_created_at)
  qed
qed

lemma sorted_order_by_created_at:
  "sorted_wrt (\<lambda>a b. created_at_le (cr_created_at a) (cr_created_at b))
     (order_by_created_at xs)"
  by (induction xs) (auto intro: sorted_insert_by_created_at)

text \<open>
  C3, as stated, fails: the private room \<open>vault\<close> in which Bob has no membership is
  in the list that \<^verbatim>\<open>fetchRooms\<close> returns to Bob.
\<close>

theorem fetchRooms_private_room_counterexample:
  "fetchRooms (Some ''u-bob'') db_rooms = [vault, lobby]
   \<and> cr_is_private vault = Some True
   \<and> memberships_of db_rooms ''r-vault'' ''u-bob'' = []"
  by (simp add: fetchRooms_def created_at_le_def policy_chat_rooms_select_def memberships_of_def
      db_rooms_def db_users_def alice_def bob_def lobby_def vault_def)

text \<open>
  C3, amended: for every caller, \<^verbatim>\<open>fetchRooms\<close> returns every row of \<^verbatim>\<open>chat_rooms\<close>,
  public or private and whether or not the caller has a membership, each row once, and
  the returned sequence is ordered by \<^verbatim>\<open>created_at\<close> ascending (rows without a
  \<^verbatim>\<open>created_at\<close> last).
\<close>

theorem fetchRooms_all_rooms_ordered:
  "mset (fetchRooms caller s) = mset (chat_rooms s)
   \<and> set (fetchRooms caller s) = set (chat_rooms s)
   \<and> sorted_wrt (\<lambda>a b. created_at_le (cr_created_at a) (cr_created_at b))
       (fetchRooms caller s)"
  by (simp add: fetchRooms_def policy_chat_rooms_select_def set_order_by_created_at
      mset_order_by_created_at sorted_order_by_created_at)

theorem fetchRooms_all_rooms_ordered_witness:
  "mset (fetchRooms (Some ''u-bob'') db_rooms) = {#lobby, vault#}
   \<and> set (fetchRooms (Some ''u-bob'') db_rooms) = {lobby, vault}"
  using fetchRooms_all_rooms_ordered [of "Some ''u-bob''" db_rooms]
  by (simp add: db_rooms_def db_users_def)

section \<open>Posting a message\<close>

text \<open>
  C2, as stated, fails: Bob has no membership in the public room \<open>lobby\<close>, and his
  insert into \<^verbatim>\<open>messages\<close> for that room succeeds.
\<close>

theorem insert_messages_non_member_counterexample:
  "insert_messages (Some ''u-bob'') hi_bob db_rooms = Inr (db_rooms\<lparr>messages := [hi_bob]\<rparr>)
   \<and> \<not> is_member db_rooms ''u-bob'' ''r-lobby''
   \<and> msg_room_id hi_bob = ''r-lobby''
   \<and> cr_id lobby = ''r-lobby'' \<and> cr_is_private lobby = Some False"
  by (simp add: insert_messages_def policy_messages_insert_def message_exists_def
      user_exists_def room_exists_def ref_ok_def is_member_def memberships_of_def hi_bob_def
      db_rooms_def db_users_def alice_def bob_def lobby_def vault_def)

text \<open>
  C2, amended: the right to write does not depend on membership. An insert into
  \<^verbatim>\<open>messages\<close> succeeds exactly when the caller is the authenticated identity named in
  the row's \<^verbatim>\<open>user_id\<close> and the row's keys are in order (unused id, existing user, room
  and reply target); it is refused by row-level security exactly when the caller is not
  the row's \<^verbatim>\<open>user_id\<close>; and the answer is the same whatever \<^verbatim>\<open>room_members\<close> holds, for
  public and private rooms alike.
\<close>

theorem insert_messages_by_authentication:
  "((insert_messages caller row s = Inr (s\<lparr>messages := messages s @ [row]\<rparr>))
      = (caller = Some (msg_user_id row) \<and> \<not> message_exists s (msg_id row)
         \<and> user_exists s (msg_user_id row) \<and> room_exists s (msg_room_id row)
         \<and> ref_ok (message_exists s) (msg_reply_to row)))
   \<and> ((insert_messages caller row s = Inl RlsViolation) = (caller \<noteq> Some (msg_user_id row)))
   \<and> insert_messages caller row (s\<lparr>room_members := ms\<rparr>)
       = map_sum id (\<lambda>s'. s'\<lparr>room_members := ms\<rparr>) (insert_messages caller row s)"
  by (auto simp: insert_messages_def policy_messages_insert_def message_exists_def
      user_exists_def room_exists_def ref_ok_def split: option.splits)

theorem insert_messages_by_authentication_witness:
  "insert_messages (Some ''u-bob'') hi_bob db_rooms = Inr (db_rooms\<lparr>messages := [hi_bob]\<rparr>)
   \<and> insert_messages (Some ''u-alice'') hi_bob db_rooms = Inl RlsViolation"
  using insert_messages_by_authentication [of "Some ''u-bob''" hi_bob db_rooms "[]"]
    insert_messages_by_authentication [of "Some ''u-alice''" hi_bob db_rooms "[]"]
  by (simp add: insert_messages_def policy_messages_insert_def message_exists_def
      user_exists_def room_exists_def ref_ok_def is_member_def memberships_of_def hi_bob_def
      db_rooms_def db_users_def alice_def bob_def lobby_def vault_def)

section \<open>Changing a room\<close>

lemma update_chat_rooms_Inr:
  assumes "update_chat_rooms caller wh sets s = Inr s'"
  shows "chat_rooms s' =
           map (\<lambda>r. if wh r \<and> policy_chat_rooms_update caller r
                     then fold assign_chat_room sets r else r) (chat_rooms s)"
  using assms by (auto simp: update_chat_rooms_def Let_def split: if_splits)

text \<open>
  C5, as stated, fails: Alice, who created the public room \<open>lobby\<close>, updates its
  \<^verbatim>\<open>is_private\<close> to true.
\<close>

theorem update_is_private_counterexample:
  "update_chat_rooms (Some ''u-alice'') (room_id_is ''r-lobby'') [SetIsPrivate (Some True)]
     db_rooms
     = Inr (db_rooms\<lparr>chat_rooms := [lobby\<lparr>cr_is_private := Some True\<rparr>, vault]\<rparr>)
   \<and> cr_is_private lobby = Some False"
  by (simp add: update_chat_rooms_def Let_def policy_chat_rooms_update_def room_id_is_def
      ref_ok_def user_exists_def db_rooms_def db_users_def alice_def bob_def lobby_def vault_def)

text \<open>
  C5, amended: after creation a room's row, \<^verbatim>\<open>is_private\<close> included, can be changed
  only by the identity in its \<^verbatim>\<open>created_by\<close>. For a caller who is anonymous or is not
  the room's creator (so also for every caller when \<^verbatim>\<open>created_by\<close> is NULL), no update
  and no insert on \<^verbatim>\<open>chat_rooms\<close> that succeeds changes the row.
\<close>

theorem is_private_changed_by_creator_only:
  assumes "i < length (chat_rooms s)"
    and "caller = None \<or> cr_created_by (chat_rooms s ! i) \<noteq> caller"
  shows "(update_chat_rooms caller wh sets s = Inr s' \<longrightarrow> chat_rooms s' ! i = chat_rooms s ! i)
       \<and> (insert_chat_rooms caller row s = Inr s' \<longrightarrow> chat_rooms s' ! i = chat_rooms s ! i)"
proof (intro conjI impI)
  assume "update_chat_rooms caller wh sets s = Inr s'"
  from update_chat_rooms_Inr [OF this] assms
  show "chat_rooms s' ! i = chat_rooms s ! i"
    by (auto simp: policy_chat_rooms_update_def split: option.splits)
next
  assume "insert_chat_rooms caller row s = Inr s'"
  with assms show "chat_rooms s' ! i = chat_rooms s ! i"
    by (auto simp: insert_chat_rooms_def nth_append split: if_splits)
qed

theorem is_private_changed_by_creator_only_witness:
  "update_chat_rooms (Some ''u-bob'') (room_id_is ''r-lobby'') [SetIsPrivate (Some True)]
     db_rooms = Inr db_rooms
   \<and> 0 < length (chat_rooms db_rooms)
   \<and> cr_created_by (chat_rooms db_rooms ! 0) \<noteq> Some ''u-bob''
   \<and> chat_rooms db_rooms ! 0 = lobby"
proof -
  have upd: "update_chat_rooms (Some ''u-bob'') (room_id_is ''r-lobby'')
     [SetIsPrivate (Some True)] db_rooms = Inr db_rooms"
    by (simp add: update_chat_rooms_def Let_def policy_chat_rooms_update_def room_id_is_def
        ref_ok_def user_exists_def db_rooms_def db_users_def alice_def bob_def lobby_def vault_def)
  have i: "0 < length (chat_rooms db_rooms)" by (simp add: db_rooms_def db_users_def alice_def bob_def lobby_def vault_def)
  have c: "Some ''u-bob'' = None \<or> cr_created_by (chat_rooms db_rooms ! 0) \<noteq> Some ''u-bob''"
    by (simp add: db_rooms_def db_users_def alice_def bob_def lobby_def vault_def)
  from is_private_changed_by_creator_only [OF i c, of "room_id_is ''r-lobby''"
      "[SetIsPrivate (Some True)]" db_rooms lobby] upd i c
  show ?thesis by (simp add: db_rooms_def db_users_def alice_def bob_def lobby_def vault_def)
qed

section \<open>Statements that expand the select policies\<close>

lemma select_policies_refused:
  "\<not> select_policies_ok RoomMembers" "\<not> select_policies_ok Messages"
  "\<not> select_policies_ok MessageReactions"
  by (simp_all add: select_policies_ok_def all_tables_def)

lemma select_policies_accepted:
  "select_policies_ok ChatRooms" "select_policies_ok Profiles"
  by (simp_all add: select_policies_ok_def all_tables_def)

section \<open>Joining a room\<close>

lemma joinRoom_refused: "joinRoom u g t r s = Inl InfiniteRecursion"
  by (simp add: joinRoom_def upsert_room_members_def select_policies_refused)

lemma joinRoom_ignoring_error_unchanged: "joinRoom_ignoring_error u g t r s = s"
  by (simp add: joinRoom_ignoring_error_def joinRoom_refused)

lemma joinRoom_repeat_unchanged: "joinRoom_repeat u r calls s = s"
  by (induction calls arbitrary: s) (auto simp: joinRoom_ignoring_error_unchanged)

lemma joinDefaultRooms_unchanged: "joinDefaultRooms u gen s = s"
proof -
  have "fold (\<lambda>room. joinRoom_ignoring_error u (fst (gen room)) (snd (gen room)) room) rs s = s"
    for rs
    by (induction rs) (simp_all add: joinRoom_ignoring_error_unchanged)
  then show ?thesis by (simp add: joinDefaultRooms_def)
qed

text \<open>
  C6 does not hold of the code. The upsert of \<^verbatim>\<open>joinDefaultRooms\<close> expands the select
  policy of \<^verbatim>\<open>room_members\<close>, which reads \<^verbatim>\<open>room_members\<close>, so every call of
  \<^verbatim>\<open>joinRoom\<close> is refused, for every user, room and state. The client ignores the
  answer, so any number of calls, and any run of \<^verbatim>\<open>joinDefaultRooms\<close>, leave the
  database as it was: a pair without a membership row never gets one.
\<close>

theorem joinRoom_always_refused:
  "joinRoom u g t r s = Inl InfiniteRecursion
   \<and> joinRoom_repeat u r calls s = s
   \<and> joinDefaultRooms u gen s = s
   \<and> memberships_of (joinDefaultRooms u gen s) r u = memberships_of s r u"
  by (simp add: joinRoom_refused joinRoom_repeat_unchanged joinDefaultRooms_unchanged)

text \<open>At the failing input: Bob is a user, the lobby is the one public room, Bob has no
  membership in it, and after his calls he still has none. The plain insert of the same
  row, which the policy "Users can join public rooms" is written for, would go
  through.\<close>

theorem joinRoom_always_refused_witness:
  "user_exists db_rooms ''u-bob''
   \<and> public_room_ids (Some ''u-bob'') db_rooms = [''r-lobby'']
   \<and> joinRoom ''u-bob'' ''rm-1'' 400 ''r-lobby'' db_rooms = Inl InfiniteRecursion
   \<and> joinRoom_repeat ''u-bob'' ''r-lobby'' [(''rm-1'', 400), (''rm-2'', 500)] db_rooms = db_rooms
   \<and> joinDefaultRooms ''u-bob'' later_ids db_rooms = db_rooms
   \<and> memberships_of (joinDefaultRooms ''u-bob'' later_ids db_rooms) ''r-lobby'' ''u-bob'' = []
   \<and> insert_room_members (Some ''u-bob'') bob_in_lobby db_rooms
       = Inr (db_rooms\<lparr>room_members := [bob_in_lobby]\<rparr>)"
proof -
  have facts: "user_exists db_rooms ''u-bob''"
    "public_room_ids (Some ''u-bob'') db_rooms = [''r-lobby'']"
    "memberships_of db_rooms ''r-lobby'' ''u-bob'' = []"
    "insert_room_members (Some ''u-bob'') bob_in_lobby db_rooms
       = Inr (db_rooms\<lparr>room_members := [bob_in_lobby]\<rparr>)"
    by (simp_all add: user_exists_def public_room_ids_def policy_chat_rooms_select_def
        memberships_of_def insert_room_members_def policy_room_members_insert_def
        role_check_def room_exists_def bob_in_lobby_def db_rooms_def db_users_def
        alice_def bob_def lobby_def vault_def)
  from joinRoom_always_refused [of "''u-bob''" "''rm-1''" 400 "''r-lobby''" db_rooms
      "[(''rm-1'', 400), (''rm-2'', 500)]" later_ids] facts
  show ?thesis by simp
qed

section \<open>Reacting to a message\<close>

lemma react_Inr:
  assumes "react u g t m e s = Inr s1"
  shows "reactions_of s m u e = [] \<and>
         s1 = s\<lparr>message_reactions := message_reactions s @
                 [\<lparr>mr_id = g, mr_message_id = m, mr_user_id = u, mr_emoji = e,
                   mr_created_at = Some t\<rparr>]\<rparr> \<and>
         (\<exists>msg. find (\<lambda>x. msg_id x = m) (messages s) = Some msg
                \<and> canRead s u (msg_room_id msg))"
  using assms
  by (auto simp: react_def insert_message_reactions_def split: option.splits if_splits)

lemma canRead_message_reactions [simp]:
  "canRead (s\<lparr>message_reactions := rs\<rparr>) u r = canRead s u r"
  by (simp add: canRead_def is_member_def memberships_of_def)

lemma delete_message_reactions_refused:
  "delete_message_reactions caller wh s = Inl InfiniteRecursion"
  by (simp add: delete_message_reactions_def select_policies_refused)

lemma unique_key_filter:
  "distinct (map f xs) \<Longrightarrow> length (filter (\<lambda>x. f x = k) xs) \<le> 1"
proof (induction xs)
  case Nil
  then show ?case by simp
next
  case (Cons x xs)
  show ?case
  proof (cases "f x = k")
    case True
    with Cons.prems have "k \<notin> f ` set xs" by auto
    then have "filter (\<lambda>x. f x = k) xs = []"
      by (auto simp: filter_empty_conv)
    with True show ?thesis by simp
  next
    case False
    with Cons show ?thesis by simp
  qed
qed

lemma reactions_unique_at_most_one:
  assumes "reactions_unique s"
  shows "length (reactions_of s m u e) \<le> 1"
proof -
  have "reactions_of s m u e
        = filter (\<lambda>r. (mr_message_id r, mr_user_id r, mr_emoji r) = (m, u, e))
            (message_reactions s)"
    by (simp add: reactions_of_def)
  with unique_key_filter [OF assms [unfolded reactions_unique_def], of "(m, u, e)"]
  show ?thesis by simp
qed

lemma insert_message_reactions_unique:
  assumes "reactions_unique s" and "insert_message_reactions caller row s = Inr s'"
  shows "reactions_unique s'"
proof -
  from assms(2)
  have none: "reactions_of s (mr_message_id row) (mr_user_id row) (mr_emoji row) = []"
    and s': "s' = s\<lparr>message_reactions := message_reactions s @ [row]\<rparr>"
    by (auto simp: insert_message_reactions_def split: if_splits)
  from none have "(mr_message_id row, mr_user_id row, mr_emoji row)
      \<notin> set (map (\<lambda>r. (mr_message_id r, mr_user_id r, mr_emoji r)) (message_reactions s))"
    by (auto simp: reactions_of_def filter_empty_conv)
  with assms(1) show ?thesis by (simp add: s' reactions_unique_def)
qed

text \<open>
  C7 does not hold of the code. When \<^verbatim>\<open>react\<close> succeeds for a message, a user and an
  emoji, the state before had no reaction row for the triple and the state after has
  exactly one; a database in which the triples are unique stays so. But \<^verbatim>\<open>unreact\<close>
  for the same triple is then refused: its delete expands the select policies of
  \<^verbatim>\<open>message_reactions\<close>, which read \<^verbatim>\<open>room_members\<close>. The row stays, and the state
  before the reaction is not reached again.
\<close>

theorem unreact_refused_after_react:
  assumes "react u g t m e s = Inr s1"
  shows "unreact u m e s1 = Inl InfiniteRecursion
       \<and> reactions_of s m u e = []
       \<and> reactions_of s1 m u e
           = [\<lparr>mr_id = g, mr_message_id = m, mr_user_id = u, mr_emoji = e,
               mr_created_at = Some t\<rparr>]
       \<and> (reactions_unique s \<longrightarrow>
            reactions_unique s1 \<and> (\<forall>m' u' e'. length (reactions_of s1 m' u' e') \<le> 1))"
proof -
  let ?row = "\<lparr>mr_id = g, mr_message_id = m, mr_user_id = u, mr_emoji = e,
               mr_created_at = Some t\<rparr>"
  from react_Inr [OF assms] obtain msg where
    none: "reactions_of s m u e = []" and
    s1: "s1 = s\<lparr>message_reactions := message_reactions s @ [?row]\<rparr>" and
    found: "find (\<lambda>x. msg_id x = m) (messages s) = Some msg" and
    rd: "canRead s u (msg_room_id msg)"
    by blast
  have refused: "unreact u m e s1 = Inl InfiniteRecursion"
    using found rd by (simp add: s1 unreact_def delete_message_reactions_refused)
  have one: "reactions_of s1 m u e = [?row]"
    using none by (simp add: s1 reactions_of_def)
  have ins: "insert_message_reactions (Some u) ?row s = Inr s1"
    using assms found rd by (simp add: react_def)
  have uniq: "reactions_unique s \<longrightarrow>
            reactions_unique s1 \<and> (\<forall>m' u' e'. length (reactions_of s1 m' u' e') \<le> 1)"
    using insert_message_reactions_unique [OF _ ins] reactions_unique_at_most_one [of s1]
    by blast
  from refused one none uniq show ?thesis by simp
qed

text \<open>At the failing input: Bob reacts to Alice's message in the public lobby, then
  takes the reaction back.\<close>

theorem unreact_refused_after_react_witness:
  "react ''u-bob'' ''x-1'' 700 ''m-hello'' ''+1'' db_chat
     = Inr (db_chat\<lparr>message_reactions := [thumbs_up]\<rparr>)
   \<and> unreact ''u-bob'' ''m-hello'' ''+1'' (db_chat\<lparr>message_reactions := [thumbs_up]\<rparr>)
     = Inl InfiniteRecursion
   \<and> reactions_of db_chat ''m-hello'' ''u-bob'' ''+1'' = []
   \<and> reactions_of (db_chat\<lparr>message_reactions := [thumbs_up]\<rparr>) ''m-hello'' ''u-bob'' ''+1''
     = [thumbs_up]"
proof -
  have r: "react ''u-bob'' ''x-1'' 700 ''m-hello'' ''+1'' db_chat
     = Inr (db_chat\<lparr>message_reactions := [thumbs_up]\<rparr>)"
    by (simp add: react_def canRead_def insert_message_reactions_def
        policy_message_reactions_all_def reactions_of_def message_exists_def user_exists_def
        thumbs_up_def db_chat_def hello_def db_rooms_def db_users_def alice_def bob_def
        lobby_def vault_def)
  from unreact_refused_after_react [OF r] r show ?thesis
    unfolding thumbs_up_def by blast
qed

section \<open>Editing\<close>

lemma update_messages_refused:
  "update_messages caller wh sets s = Inl InfiniteRecursion"
  by (simp add: update_messages_def Let_def select_policies_refused)

text \<open>
  C8 does not hold of the code. For a message \<open>m\<close> that exists, \<^verbatim>\<open>canEditMessage(u, m)\<close>
  holds exactly when \<open>u\<close> is the author of \<open>m\<close>, and an edit by another identity is
  \<^verbatim>\<open>Forbidden\<close>. But the edit by the author is refused as well: its update expands the
  select policy of \<^verbatim>\<open>messages\<close>, which reads \<^verbatim>\<open>room_members\<close>. No edit succeeds, and
  \<^verbatim>\<open>edited_at\<close> is never set.
\<close>

theorem editMessage_refused_for_author:
  assumes "find (\<lambda>x. msg_id x = mid) (messages s) = Some m"
  shows "canEditMessage u m = (msg_user_id m = u)
       \<and> (msg_user_id m \<noteq> u \<longrightarrow> editMessage u mid c now s = Inl Forbidden)
       \<and> (msg_user_id m = u \<longrightarrow> editMessage u mid c now s = Inl InfiniteRecursion)"
  using assms
  by (auto simp: canEditMessage_def policy_messages_update_def editMessage_def
      update_messages_refused)

text \<open>At the failing input: Alice edits her own message in the public lobby.\<close>

theorem editMessage_refused_for_author_witness:
  "find (\<lambda>x. msg_id x = ''m-hello'') (messages db_chat) = Some hello
   \<and> msg_user_id hello = ''u-alice''
   \<and> canEditMessage ''u-alice'' hello
   \<and> editMessage ''u-alice'' ''m-hello'' ''edited'' 900 db_chat = Inl InfiniteRecursion
   \<and> editMessage ''u-bob'' ''m-hello'' ''edited'' 900 db_chat = Inl Forbidden
   \<and> msg_edited_at hello = None"
proof -
  have f: "find (\<lambda>x. msg_id x = ''m-hello'') (messages db_chat) = Some hello"
    by (simp add: db_chat_def hello_def)
  have a: "msg_user_id hello = ''u-alice''" "msg_edited_at hello = None"
    by (simp_all add: hello_def)
  from editMessage_refused_for_author [OF f, of "''u-alice''" "''edited''" 900]
    editMessage_refused_for_author [OF f, of "''u-bob''" "''edited''" 900] f a
  show ?thesis by simp
qed

section \<open>The fallback rooms of the client\<close>

lemma advance_not_due:
  "timer st = Some (due, seen) \<Longrightarrow> t < due \<Longrightarrow> advance t st = st"
  by (subst advance.simps) (simp del: advance.simps)

lemma advance_due:
  "timer st = Some (due, seen) \<Longrightarrow> due \<le> t \<Longrightarrow>
   advance t st = advance t (timer_callback due seen (st\<lparr>timer := None\<rparr>))"
  by (subst advance.simps) (simp del: advance.simps)

lemma handle_no_rooms:
  assumes "\<not> returns_rooms e" and "rooms st = []"
  shows "rooms (handle t e st) = [] \<and> timer (handle t e st) = timer st"
  using assms by (cases e rule: returns_rooms.cases) (simp_all add: setRooms_def)

lemma run_no_rooms:
  assumes "\<forall>(t, e) \<in> set es. t < due \<and> \<not> returns_rooms e"
    and "rooms st = []" and "timer st = Some (due, 0)"
  shows "rooms (run es st) = [] \<and> timer (run es st) = Some (due, 0)"
  using assms
proof (induction es arbitrary: st)
  case Nil
  then show ?case by simp
next
  case (Cons p es)
  obtain t e where p: "p = (t, e)" by (cases p)
  from Cons.prems p have t: "t < due" and e: "\<not> returns_rooms e" by auto
  from Cons.prems(3) t have adv: "advance t st = st" by (rule advance_not_due)
  from handle_no_rooms [OF e Cons.prems(2), of t] Cons.prems(3)
  have "rooms (handle t e st) = []" and "timer (handle t e st) = Some (due, 0)"
    by simp_all
  moreover from Cons.prems(1) have "\<forall>(t, e) \<in> set es. t < due \<and> \<not> returns_rooms e"
    by simp
  ultimately
  have "rooms (run es (handle t e st)) = [] \<and> timer (run es (handle t e st)) = Some (due, 0)"
    using Cons.IH by blast
  with p adv show ?case by (simp del: advance.simps)
qed

lemma timer_fires_on_empty:
  assumes "rooms st = []" and "timer st = Some (due, 0)"
  shows "advance due st = st\<lparr>rooms := mockRooms due, activeRoom := Some (mockRooms due ! 0),
                              timer := Some (due + 3000, 4)\<rparr>"
proof -
  let ?st' = "timer_callback due 0 (st\<lparr>timer := None\<rparr>)"
  have cb: "?st' = st\<lparr>rooms := mockRooms due, activeRoom := Some (mockRooms due ! 0),
                       timer := Some (due + 3000, 4)\<rparr>"
    using assms by (simp add: timer_callback_def setRooms_def mockRooms_def)
  have "advance due st = advance due ?st'"
    using assms(2) by (rule advance_due) simp
  also have "\<dots> = ?st'"
    by (rule advance_not_due [where due = "due + 3000" and seen = 4]) (simp_all add: cb)
  finally show ?thesis using cb by (simp del: advance.simps)
qed

text \<open>
  C9: the component is mounted at \<open>t0\<close> and stays mounted; \<open>es\<close> are the events handled
  before \<open>t0 + 3000\<close>, and in none of them the backend returns a room (a fetch that
  fails, a fetch that returns the empty list, a selection in the sidebar). Then at
  \<open>t0 + 3000\<close> the room list is the four fabricated rooms \<open>general\<close>, \<open>random\<close>,
  \<open>tech-talk\<close> and \<open>announcements\<close> with the ids 1 to 4 and the local time as
  \<^verbatim>\<open>created_at\<close>, and the active room is the first of them.
\<close>

theorem mock_rooms_after_three_seconds:
  assumes "\<forall>(t, e) \<in> set es. t < t0 + 3000 \<and> \<not> returns_rooms e"
  shows "rooms (advance (t0 + 3000) (run es (mount t0))) = mockRooms (t0 + 3000)
       \<and> map ui_name (rooms (advance (t0 + 3000) (run es (mount t0))))
           = [''general'', ''random'', ''tech-talk'', ''announcements'']
       \<and> map ui_id (rooms (advance (t0 + 3000) (run es (mount t0))))
           = [''1'', ''2'', ''3'', ''4'']
       \<and> map ui_created_at (rooms (advance (t0 + 3000) (run es (mount t0))))
           = replicate 4 (Some (t0 + 3000))
       \<and> activeRoom (advance (t0 + 3000) (run es (mount t0)))
           = Some (mockRooms (t0 + 3000) ! 0)"
proof -
  have "rooms (run es (mount t0)) = [] \<and> timer (run es (mount t0)) = Some (t0 + 3000, 0)"
    using assms by (rule run_no_rooms) (simp_all add: mount_def)
  then have "advance (t0 + 3000) (run es (mount t0))
        = (run es (mount t0))\<lparr>rooms := mockRooms (t0 + 3000),
             activeRoom := Some (mockRooms (t0 + 3000) ! 0),
             timer := Some (t0 + 3000 + 3000, 4)\<rparr>"
    by (intro timer_fires_on_empty) simp_all
  then show ?thesis by (simp add: mockRooms_def numeral_eq_Suc del: advance.simps)
qed

theorem mock_rooms_after_three_seconds_witness:
  "rooms (advance (0 + 3000)
            (run [(1200, fetchRooms_answer (Some ''u-bob'') db_users),
                  (2000, RoomsFetched None)] (mount 0)))
     = mockRooms 3000
   \<and> activeRoom (advance (0 + 3000)
            (run [(1200, fetchRooms_answer (Some ''u-bob'') db_users),
                  (2000, RoomsFetched None)] (mount 0)))
     = Some \<lparr>ui_id = ''1'', ui_name = ''general'',
             ui_description = Some ''General discussion for everyone'',
             ui_created_at = Some 3000\<rparr>"
proof -
  have h: "\<forall>(t, e) \<in> set [(1200, fetchRooms_answer (Some ''u-bob'') db_users),
                           (2000::nat, RoomsFetched None)].
             t < 0 + 3000 \<and> \<not> returns_rooms e"
    by (simp add: fetchRooms_answer_def fetchRooms_def db_users_def)
  from mock_rooms_after_three_seconds [OF h] show ?thesis
    by (simp add: mockRooms_def del: advance.simps)
qed

section \<open>Signing up\<close>

lemma split_fields_nonempty: "split_fields d str \<noteq> []"
  by (induction str) (auto split: list.splits)

lemma split_part_1: "split_part str d (Suc 0) = takeWhile (\<lambda>c. c \<noteq> d) str"
proof -
  have "hd (split_fields d str) = takeWhile (\<lambda>c. c \<noteq> d) str"
    by (induction str) (auto simp: split_fields_nonempty split: list.splits)
  with split_fields_nonempty [of d str] show ?thesis
    by (cases "split_fields d str") (auto simp: split_part_def)
qed

lemma bytea_escaped_plain:
  "CHR 0x5C \<notin> set t \<Longrightarrow> bytea_escaped t = Inr (map of_char t)"
proof (induction t)
  case Nil
  then show ?case by simp
next
  case (Cons a t)
  then have "a \<noteq> CHR 0x5C" and "bytea_escaped t = Inr (map of_char t)" by auto
  then show ?case by (simp add: prepend_byte_def)
qed

lemma bytea_of_text_plain:
  assumes "CHR 0x5C \<notin> set t"
  shows "bytea_of_text t = Inr (map of_char t)"
proof -
  have "bytea_of_text t = bytea_escaped t"
  proof (cases t)
    case Nil
    then show ?thesis by (simp add: bytea_of_text_def)
  next
    case (Cons c cs)
    with assms have "c \<noteq> CHR 0x5C" by auto
    with Cons show ?thesis
      by (cases cs) (simp_all add: bytea_of_text_def del: bytea_escaped.simps)
  qed
  with bytea_escaped_plain [OF assms] show ?thesis by simp
qed

lemma bytea_of_text_examples:
  "bytea_of_text [CHR ''a'', CHR 0x5C, CHR 0x5C, CHR ''b''] = Inr [97, 92, 98]"
  "bytea_of_text [CHR ''a'', CHR 0x5C, CHR ''1'', CHR ''0'', CHR ''1''] = Inr [97, 65]"
  "bytea_of_text [CHR 0x5C, CHR ''x'', CHR ''4'', CHR ''1'', CHR '' '', CHR ''6'', CHR ''a'']
     = Inr [65, 106]"
  "bytea_of_text [CHR ''a'', CHR 0x5C, CHR ''b''] = Inl InvalidTextRepresentation"
  by (simp_all add: bytea_of_text_def prepend_byte_def octal_byte_def octal_value_def
      hex_value_def hex_blank_def)

lemma handle_new_user_Inr:
  assumes "handle_new_user new now s = Inr s'"
  shows "\<exists>avatar. new_user_avatar_url new = Inr avatar \<and>
           s' = s\<lparr>profiles := profiles s @
                  [\<lparr>pr_id = au_id new, pr_username = new_user_username new,
                    pr_avatar_url = avatar, pr_email = au_email new,
                    pr_last_seen = Some now, pr_is_online = Some False,
                    pr_created_at = Some now, pr_updated_at = Some now\<rparr>]\<rparr> \<and>
           au_id new \<notin> pr_id ` set (profiles s)"
  using assms
  by (auto simp: handle_new_user_def Let_def split: sum.splits if_splits)

lemma no_user_no_room_operation:
  assumes "\<not> user_exists s u"
  shows "createRoom (Some u) g t n d s = Inl NotSignedIn"
    and "createChatRoom (Some u) g t n d s = Inl NotSignedIn"
    and "msg_user_id row = u \<Longrightarrow> isl (insert_messages caller row s)"
  using assms
  by (simp_all add: createRoom_def createChatRoom_def getUser_def insert_messages_def)

text \<open>
  C10: a signup that goes through, for a user with an email and no \<open>username\<close> in the
  metadata. Before the signup the user has no row in \<^verbatim>\<open>auth.users\<close>, and no room
  operation for that identity succeeds: \<^verbatim>\<open>createRoom\<close> and \<^verbatim>\<open>createChatRoom\<close> find
  no signed-in user, and no message with that \<^verbatim>\<open>user_id\<close> can be inserted. The signup
  adds the user and, in the same step, one profile row, the only row of that user. Its
  username is the part of the email before the first \<open>@\<close>. When the metadata have no
  \<open>avatar_url\<close>, its avatar is the fixed prefix followed by the base64 text of the
  bytes that the email denotes as \<^verbatim>\<open>bytea\<close>; for an email without a backslash these
  are the bytes of the email itself.
\<close>

theorem signup_creates_profile:
  assumes "on_auth_user_created new now s = Inr s'"
    and "map_of (au_raw_user_meta_data new) ''username'' = None"
    and "au_email new = Some email"
  shows "\<not> user_exists s (au_id new)
       \<and> createRoom (Some (au_id new)) g t n d s = Inl NotSignedIn
       \<and> createChatRoom (Some (au_id new)) g t n d s = Inl NotSignedIn
       \<and> (msg_user_id row = au_id new \<longrightarrow> isl (insert_messages caller row s))
       \<and> user_exists s' (au_id new)
       \<and> (\<exists>p. profiles s' = profiles s @ [p] \<and> profiles_of s' (au_id new) = [p]
              \<and> pr_id p = au_id new
              \<and> pr_username p = Some (takeWhile (\<lambda>c. c \<noteq> CHR ''@'') email)
              \<and> (map_of (au_raw_user_meta_data new) ''avatar_url'' = None \<longrightarrow>
                   (\<exists>bytes. bytea_of_text email = Inr bytes
                      \<and> pr_avatar_url p
                        = Some (''https://api.dicebear.com/7.x/initials/svg?seed=''
                                @ encode_base64 bytes))
                   \<and> (CHR 0x5C \<notin> set email \<longrightarrow>
                        pr_avatar_url p
                        = Some (''https://api.dicebear.com/7.x/initials/svg?seed=''
                                @ encode_base64 (map of_char email)))))"
proof -
  let ?s1 = "s\<lparr>auth_users := auth_users s @ [new]\<rparr>"
  from assms(1) have fresh: "\<not> user_exists s (au_id new)"
    and h: "handle_new_user new now ?s1 = Inr s'"
    by (auto simp: on_auth_user_created_def split: if_splits)
  let ?p = "\<lambda>avatar. \<lparr>pr_id = au_id new, pr_username = new_user_username new,
                    pr_avatar_url = avatar, pr_email = au_email new,
                    pr_last_seen = Some now, pr_is_online = Some False,
                    pr_created_at = Some now, pr_updated_at = Some now\<rparr>"
  from handle_new_user_Inr [OF h] obtain avatar where
    av: "new_user_avatar_url new = Inr avatar" and
    s': "s' = ?s1\<lparr>profiles := profiles ?s1 @ [?p avatar]\<rparr>" and
    nop: "au_id new \<notin> pr_id ` set (profiles ?s1)"
    by blast
  have ex: "user_exists s' (au_id new)" by (simp add: s' user_exists_def)
  have app: "profiles s' = profiles s @ [?p avatar]" by (simp add: s')
  from nop have "filter (\<lambda>p. pr_id p = au_id new) (profiles s) = []"
    by (force simp: filter_empty_conv image_iff)
  then have one: "profiles_of s' (au_id new) = [?p avatar]"
    by (simp add: profiles_of_def app)
  have un: "pr_username (?p avatar) = Some (takeWhile (\<lambda>c. c \<noteq> CHR ''@'') email)"
    using assms(2,3) by (simp add: new_user_username_def split_part_1)
  have avv: "map_of (au_raw_user_meta_data new) ''avatar_url'' = None \<longrightarrow>
      (\<exists>bytes. bytea_of_text email = Inr bytes
          \<and> pr_avatar_url (?p avatar)
            = Some (''https://api.dicebear.com/7.x/initials/svg?seed=''
                    @ encode_base64 bytes))"
    using av assms(3)
    by (auto simp: new_user_avatar_url_def simp del: encode_base64.simps
        split: sum.splits)
  have plain: "map_of (au_raw_user_meta_data new) ''avatar_url'' = None \<longrightarrow>
      CHR 0x5C \<notin> set email \<longrightarrow>
      pr_avatar_url (?p avatar)
            = Some (''https://api.dicebear.com/7.x/initials/svg?seed=''
                    @ encode_base64 (map of_char email))"
    using avv bytea_of_text_plain [of email]
    by (auto simp del: encode_base64.simps)
  from no_user_no_room_operation [OF fresh] fresh ex app one un avv plain show ?thesis
    by (intro conjI exI [of _ "?p avatar"] impI) (simp_all del: encode_base64.simps)
qed

theorem signup_creates_profile_witness:
  "on_auth_user_created alice 5 (db_users\<lparr>auth_users := [bob]\<rparr>)
     = Inr (db_users\<lparr>auth_users := [bob, alice], profiles := [alice_profile]\<rparr>)
   \<and> map_of (au_raw_user_meta_data alice) ''username'' = None
   \<and> au_email alice = Some ''alice@example.com''
   \<and> \<not> user_exists (db_users\<lparr>auth_users := [bob]\<rparr>) (au_id alice)
   \<and> createChatRoom (Some (au_id alice)) ''r-early'' 1 ''early'' None
       (db_users\<lparr>auth_users := [bob]\<rparr>) = Inl NotSignedIn
   \<and> profiles_of (db_users\<lparr>auth_users := [bob, alice], profiles := [alice_profile]\<rparr>)
       (au_id alice) = [alice_profile]"
proof -
  have signup: "on_auth_user_created alice 5 (db_users\<lparr>auth_users := [bob]\<rparr>)
     = Inr (db_users\<lparr>auth_users := [bob, alice], profiles := [alice_profile]\<rparr>)"
    by (simp add: on_auth_user_created_def handle_new_user_def new_user_avatar_url_def
        new_user_username_def bytea_of_text_def prepend_byte_def split_part_def
        base64_char_def Let_def user_exists_def alice_profile_def db_users_def alice_def
        bob_def)
  have m: "map_of (au_raw_user_meta_data alice) ''username'' = None" by (simp add: alice_def)
  have e: "au_email alice = Some ''alice@example.com''" by (simp add: alice_def)
  from signup_creates_profile [OF signup m e, of "''r-early''" 1 "''early''" None] signup m e
  show ?thesis
    by (simp add: db_users_def del: encode_base64.simps)
qed

end
